theory Spec2Isabelle
  imports Complex_Main "HOL-Library.Word" "HOL-Library.Sublist" "HOL-Library.AList"
begin

section \<open>Data model\<close>

text \<open>
  Audio is raw PCM: a \<open>bytes\<close> / \<open>bytearray\<close> value is a list of 8-bit words.
  Python's unbounded \<open>int\<close> is \<open>int\<close>. Python's \<open>float\<close> (timestamps from
  \<open>time.time()\<close>, durations in seconds, the \<open>*_SECONDS\<close> settings) is idealised as
  \<open>real\<close>: the rounding of IEEE doubles is not part of the model.
\<close>

type_synonym byte = "8 word"
type_synonym bytes = "byte list"

text \<open>\<open>len(b)\<close> for a byte string, as a Python int.\<close>

definition len :: "bytes \<Rightarrow> int" where
  "len b = int (length b)"

text \<open>
  \<open>int(x)\<close> on a float truncates towards zero.
\<close>

definition py_int_of_float :: "real \<Rightarrow> int" where
  "py_int_of_float x = (if 0 \<le> x then \<lfloor>x\<rfloor> else \<lceil>x\<rceil>)"

text \<open>\<open>b[k:]\<close> for \<open>k \<ge> 0\<close>: the slice that drops the first \<open>k\<close> bytes.\<close>

definition slice_from :: "int \<Rightarrow> bytes \<Rightarrow> bytes" where
  "slice_from k b = drop (nat k) b"

datatype error = ZeroDivisionError | ValueError | TypeError | AttributeError | ResponseError

subsection \<open>config.py\<close>

text \<open>
  The settings of \<open>config.py\<close> are read from the environment at import time, so they
  are a parameter of every operation.
\<close>

record config =
  SILENCE_THRESHOLD_SECONDS :: real
  SAMPLE_RATE :: int
  PRE_SPEECH_BUFFER_SECONDS :: real
  MINIMUM_NEW_AUDIO_SECONDS :: real
  MAX_QUEUE_DEPTH :: int
  MAX_AUDIO_BUFFER_SECONDS :: real
  SEND_FINAL_JOB_ON_MAX_BUFFER :: bool
  DEFAULT_SOURCE_LANGUAGE :: string
  DEFAULT_TARGET_LANGUAGE :: string

text \<open>The defaults written in \<open>config.py\<close>.\<close>

definition default_config :: config where
  "default_config =
     \<lparr> SILENCE_THRESHOLD_SECONDS = 1,
       SAMPLE_RATE = 16000,
       PRE_SPEECH_BUFFER_SECONDS = 2,
       MINIMUM_NEW_AUDIO_SECONDS = 1,
       MAX_QUEUE_DEPTH = 100,
       MAX_AUDIO_BUFFER_SECONDS = 10,
       SEND_FINAL_JOB_ON_MAX_BUFFER = True,
       DEFAULT_SOURCE_LANGUAGE = ''en'',
       DEFAULT_TARGET_LANGUAGE = ''vi'' \<rparr>"

subsection \<open>session.py: SpeechState and SpeechSession\<close>

datatype SpeechState = INACTIVE | ACTIVE | SILENCE

record SpeechSession =
  state :: SpeechState
  audio_buffer :: bytes
  pre_speech_buffer :: bytes
  silence_start_time :: "real option"
  session_start_time :: "real option"
  accumulated_audio_bytes :: int
  last_stt_send_time :: "real option"
  last_published_len :: int
  silence_buffer_start_len :: int
  source_lang :: string
  target_lang :: string
  translation_enabled :: bool

text \<open>\<open>SpeechSession()\<close>: the dataclass defaults, after \<open>__post_init__\<close>.\<close>

definition new_session :: "config \<Rightarrow> SpeechSession" where
  "new_session cfg =
     \<lparr> state = INACTIVE, audio_buffer = [], pre_speech_buffer = [],
       silence_start_time = None, session_start_time = None,
       accumulated_audio_bytes = 0, last_stt_send_time = None,
       last_published_len = 0, silence_buffer_start_len = 0,
       source_lang = DEFAULT_SOURCE_LANGUAGE cfg,
       target_lang = DEFAULT_TARGET_LANGUAGE cfg,
       translation_enabled = True \<rparr>"

text \<open>\<open>start_speech\<close>; \<open>t\<close> is the clock reading stored in \<open>session_start_time\<close>.\<close>

definition start_speech :: "real \<Rightarrow> SpeechSession \<Rightarrow> SpeechSession" where
  "start_speech t s =
     s\<lparr> state := ACTIVE, session_start_time := Some t, silence_start_time := None,
        silence_buffer_start_len := 0, last_published_len := 0 \<rparr>"

definition end_speech_session :: "SpeechSession \<Rightarrow> SpeechSession" where
  "end_speech_session s =
     s\<lparr> state := INACTIVE, audio_buffer := [], pre_speech_buffer := [],
        silence_start_time := None, session_start_time := None,
        accumulated_audio_bytes := 0, last_stt_send_time := None,
        last_published_len := 0, silence_buffer_start_len := 0 \<rparr>"

subsection \<open>The gateway's in-memory state and the job stream\<close>

text \<open>
  A row of the \<open>audio_jobs\<close> stream. The payload is the whole \<open>audio_buffer\<close> (base64 on
  the wire). The fields made from \<open>uuid4\<close> and \<open>time.time()\<close> (\<open>job_id\<close>,
  \<open>segment_id\<close>, \<open>timestamp\<close>) and \<open>gateway_instance\<close> are not modelled.
\<close>

record job =
  job_client_id :: string
  job_audio :: bytes
  job_sample_rate :: int
  job_source_lang :: string
  job_target_lang :: string
  job_translation_enabled :: bool
  job_is_final :: bool

text \<open>
  \<open>RedisService.job_in_flight\<close> and \<open>latest_segment_id_sent\<close> are dicts keyed by client
  id; \<open>audio_jobs\<close> is the Redis stream read by \<open>xlen\<close> and appended to by \<open>xadd\<close>;
  \<open>jobs_published\<close> and \<open>audio_chunks_processed\<close> are the gateway's metrics.
\<close>

record gateway =
  job_in_flight :: "string \<rightharpoonup> bool"
  latest_segment_id_sent :: "string \<rightharpoonup> int"
  audio_jobs :: "job list"
  jobs_published :: int
  audio_chunks_processed :: int

text \<open>\<open>self.redis_client.job_in_flight.get(client_id, False)\<close>\<close>

definition get_in_flight :: "gateway \<Rightarrow> string \<Rightarrow> bool" where
  "get_in_flight g c = (case job_in_flight g c of None \<Rightarrow> False | Some b \<Rightarrow> b)"

section \<open>Job dispatch\<close>

subsection \<open>RedisService.publish\_audio\_job\<close>

text \<open>
  Returns whether a stream id was returned (the source returns \<open>None\<close> for an empty
  buffer and when the queue is too deep), with the gateway state after the call.
\<close>

definition RedisService_publish_audio_job ::
  "config \<Rightarrow> string \<Rightarrow> SpeechSession \<Rightarrow> bool \<Rightarrow> gateway \<Rightarrow> bool \<times> gateway" where
  "RedisService_publish_audio_job cfg client_id session is_final g =
     (let buffer_size = len (audio_buffer session) in
      if buffer_size = 0 then (False, g)
      else
        let queue_depth = int (length (audio_jobs g)) in
        if queue_depth > MAX_QUEUE_DEPTH cfg then (False, g)
        else
          let job_data =
                \<lparr> job_client_id = client_id,
                  job_audio = audio_buffer session,
                  job_sample_rate = SAMPLE_RATE cfg,
                  job_source_lang = source_lang session,
                  job_target_lang = target_lang session,
                  job_translation_enabled = translation_enabled session,
                  job_is_final = is_final \<rparr>
          in (True, g\<lparr> audio_jobs := audio_jobs g @ [job_data] \<rparr>))"

subsection \<open>GatewayService.publish\_audio\_job\<close>

definition GatewayService_publish_audio_job ::
  "config \<Rightarrow> string \<Rightarrow> SpeechSession \<Rightarrow> bool \<Rightarrow> gateway \<Rightarrow> gateway" where
  "GatewayService_publish_audio_job cfg client_id session is_final g =
     (case RedisService_publish_audio_job cfg client_id session is_final g of
        (stream_id, g') \<Rightarrow>
          if stream_id then g'\<lparr> jobs_published := jobs_published g' + 1 \<rparr> else g')"

subsection \<open>GatewayService.publish\_job\_if\_needed\<close>

text \<open>
  The number of bytes the source counts as new speech (\<open>new_speech_bytes\<close>).
\<close>

definition new_speech_bytes :: "SpeechSession \<Rightarrow> int" where
  "new_speech_bytes session =
     (if silence_buffer_start_len session > 0
         \<and> silence_buffer_start_len session > last_published_len session
      then max 0 (len (audio_buffer session) - silence_buffer_start_len session)
      else len (audio_buffer session) - last_published_len session)"

text \<open>
  The result is the returned flag, the gateway state and the session object after the
  call. Both divisions by \<open>SAMPLE_RATE * 2\<close> are evaluated before anything else, so a
  zero sample rate raises before any effect.
\<close>

definition publish_job_if_needed ::
  "config \<Rightarrow> string \<Rightarrow> SpeechSession \<Rightarrow> bool \<Rightarrow> bool \<Rightarrow> gateway
     \<Rightarrow> error + (bool \<times> gateway \<times> SpeechSession)" where
  "publish_job_if_needed cfg client_id session is_final force_publish g =
     (if SAMPLE_RATE cfg * 2 = 0 then Inl ZeroDivisionError
      else
        let in_flight = get_in_flight g client_id;
            buffer_has_new_data = len (audio_buffer session) > last_published_len session;
            new_speech_seconds =
              real_of_int (new_speech_bytes session) / real_of_int (SAMPLE_RATE cfg * 2);
            new_audio_meets_minimum = new_speech_seconds \<ge> MINIMUM_NEW_AUDIO_SECONDS cfg
        in
        if (force_publish \<or> \<not> in_flight) \<and> buffer_has_new_data
             \<and> (force_publish \<or> new_audio_meets_minimum)
        then
          let g1 = GatewayService_publish_audio_job cfg client_id session is_final g;
              session1 = session\<lparr> last_published_len := len (audio_buffer session),
                                  silence_buffer_start_len := 0 \<rparr>;
              g2 = (if \<not> is_final
                    then g1\<lparr> job_in_flight := (job_in_flight g1)(client_id \<mapsto> True) \<rparr>
                    else g1)
          in Inr (True, g2, session1)
        else Inr (False, g, session))"

section \<open>Speech-session engine\<close>

subsection \<open>GatewayService.process\_audio\_chunk\<close>

text \<open>
  The three readings of \<open>time.time()\<close> one call can make: in \<open>start_speech\<close>
  (\<open>t_session\<close>), when \<open>silence_start_time\<close> is assigned (\<open>t_silence\<close>), and when the
  silence duration is measured (\<open>t_check\<close>).
\<close>

record clock =
  t_session :: real
  t_silence :: real
  t_check :: real

text \<open>The rolling pre-speech buffer: extend by the chunk, then trim from the front.\<close>

definition update_pre_speech_buffer :: "config \<Rightarrow> bytes \<Rightarrow> SpeechSession \<Rightarrow> SpeechSession" where
  "update_pre_speech_buffer cfg audio_chunk session =
     (let pre_speech_max_bytes =
            py_int_of_float (PRE_SPEECH_BUFFER_SECONDS cfg * real_of_int (SAMPLE_RATE cfg) * 2);
          extended = pre_speech_buffer session @ audio_chunk
      in if len extended > pre_speech_max_bytes
         then let excess_bytes = len extended - pre_speech_max_bytes
              in session\<lparr> pre_speech_buffer := slice_from excess_bytes extended \<rparr>
         else session\<lparr> pre_speech_buffer := extended \<rparr>)"

text \<open>The branch \<open>if has_speech:\<close>, by the state the session is in.\<close>

definition on_speech :: "clock \<Rightarrow> SpeechSession \<Rightarrow> SpeechSession" where
  "on_speech clk session =
     (case state session of
        INACTIVE \<Rightarrow>
          (start_speech (t_session clk)
             (session\<lparr> audio_buffer := audio_buffer session @ pre_speech_buffer session,
                       accumulated_audio_bytes :=
                         accumulated_audio_bytes session + len (pre_speech_buffer session) \<rparr>))
            \<lparr> silence_start_time := Some (t_silence clk) \<rparr>
      | SILENCE \<Rightarrow>
          (start_speech (t_session clk)
             (session\<lparr> silence_buffer_start_len := len (audio_buffer session) \<rparr>))
            \<lparr> silence_start_time := Some (t_silence clk) \<rparr>
      | ACTIVE \<Rightarrow> session\<lparr> silence_start_time := Some (t_silence clk) \<rparr>)"

text \<open>
  The block under \<open>if session.state == SpeechState.ACTIVE and not has_speech\<close>: the
  marker is written only when no silence timer is running.
\<close>

definition mark_silence_start :: "clock \<Rightarrow> SpeechSession \<Rightarrow> SpeechSession" where
  "mark_silence_start clk session =
     (if silence_start_time session = None
      then session\<lparr> silence_start_time := Some (t_silence clk),
                    silence_buffer_start_len := len (audio_buffer session) \<rparr>
      else session)"

text \<open>
  The last block: a non-final publish unless the session is inside a silence period; then
  the session is saved and the chunk counted.
\<close>

definition in_silence_period :: "SpeechSession \<Rightarrow> bool" where
  "in_silence_period session \<longleftrightarrow>
     silence_start_time session \<noteq> None
     \<and> silence_buffer_start_len session > 0
     \<and> len (audio_buffer session) > silence_buffer_start_len session"

definition publish_or_skip ::
  "config \<Rightarrow> string \<Rightarrow> gateway \<Rightarrow> SpeechSession \<Rightarrow> error + (bool \<times> gateway \<times> SpeechSession)" where
  "publish_or_skip cfg client_id g session =
     (if state session = ACTIVE \<and> \<not> in_silence_period session
      then (case publish_job_if_needed cfg client_id session False False g of
              Inl e \<Rightarrow> Inl e
            | Inr (published, g', session') \<Rightarrow>
                Inr (False, g'\<lparr> audio_chunks_processed := audio_chunks_processed g' + 1 \<rparr>,
                     session'))
      else Inr (False, g\<lparr> audio_chunks_processed := audio_chunks_processed g + 1 \<rparr>, session))"

text \<open>
  Continuous silence detection: the progress bar divides by
  \<open>SILENCE_THRESHOLD_SECONDS\<close>; on timeout the in-flight flag is cleared, a final job is
  forced and the session is reset.
\<close>

definition check_silence_timeout ::
  "config \<Rightarrow> clock \<Rightarrow> string \<Rightarrow> gateway \<Rightarrow> SpeechSession
     \<Rightarrow> error + (bool \<times> gateway \<times> SpeechSession)" where
  "check_silence_timeout cfg clk client_id g session =
     (case (if state session = ACTIVE then silence_start_time session else None) of
        None \<Rightarrow> publish_or_skip cfg client_id g session
      | Some started \<Rightarrow>
          let silence_duration = t_check clk - started in
          if SILENCE_THRESHOLD_SECONDS cfg = 0 then Inl ZeroDivisionError
          else if silence_duration \<ge> SILENCE_THRESHOLD_SECONDS cfg
          then
            let g1 = g\<lparr> job_in_flight := (job_in_flight g)(client_id \<mapsto> False) \<rparr>
            in (case publish_job_if_needed cfg client_id session True True g1 of
                  Inl e \<Rightarrow> Inl e
                | Inr (published, g2, session2) \<Rightarrow>
                    Inr (True, g2, end_speech_session session2))
          else publish_or_skip cfg client_id g session)"

text \<open>
  \<open>has_speech\<close> is the verdict \<open>detect_speech_activity\<close> returned for the chunk. The
  session argument is the object \<open>load_session\<close> returned; the session of the result is
  the one handed to \<open>save_session\<close>. Printing \<open>buffer_seconds\<close> divides by
  \<open>SAMPLE_RATE * 2\<close>.
\<close>

definition process_audio_chunk ::
  "config \<Rightarrow> clock \<Rightarrow> bool \<Rightarrow> string \<Rightarrow> bytes \<Rightarrow> gateway \<Rightarrow> SpeechSession
     \<Rightarrow> error + (bool \<times> gateway \<times> SpeechSession)" where
  "process_audio_chunk cfg clk has_speech client_id audio_chunk g session0 =
     (let session1 = update_pre_speech_buffer cfg audio_chunk session0;
          max_audio_buffer_bytes =
            py_int_of_float (MAX_AUDIO_BUFFER_SECONDS cfg * real_of_int (SAMPLE_RATE cfg) * 2);
          session2 = (if has_speech then on_speech clk session1 else session1);
          session3 = (if state session2 = ACTIVE \<and> \<not> has_speech
                      then mark_silence_start clk session2 else session2)
      in
      if state session3 = ACTIVE then
        let session4 =
              session3\<lparr> audio_buffer := audio_buffer session3 @ audio_chunk,
                        accumulated_audio_bytes :=
                          accumulated_audio_bytes session3 + len audio_chunk \<rparr>
        in
        if SAMPLE_RATE cfg * 2 = 0 then Inl ZeroDivisionError
        else if len (audio_buffer session4) > max_audio_buffer_bytes then
          (if SEND_FINAL_JOB_ON_MAX_BUFFER cfg
           then (case publish_job_if_needed cfg client_id session4 True True g of
                   Inl e \<Rightarrow> Inl e
                 | Inr (published, g', session5) \<Rightarrow>
                     Inr (True, g', end_speech_session session5))
           else Inr (True, g, end_speech_session session4))
        else check_silence_timeout cfg clk client_id g session4
      else check_silence_timeout cfg clk client_id g session3)"

text \<open>
  A run of the engine over a sequence of chunks, each with its verdict and clock
  readings: every call loads the session the previous one saved. A raise ends the run.
\<close>

fun process_chunks ::
  "config \<Rightarrow> string \<Rightarrow> (clock \<times> bool \<times> bytes) list \<Rightarrow> gateway \<Rightarrow> SpeechSession
     \<Rightarrow> error + (gateway \<times> SpeechSession)" where
  "process_chunks cfg client_id [] g session = Inr (g, session)"
| "process_chunks cfg client_id ((clk, has_speech, audio_chunk) # rest) g session =
     (case process_audio_chunk cfg clk has_speech client_id audio_chunk g session of
        Inl e \<Rightarrow> Inl e
      | Inr (ended, g', session') \<Rightarrow> process_chunks cfg client_id rest g' session')"

section \<open>Dual voice-activity detection (vad.py)\<close>

text \<open>
  The detector object's flags. \<open>silero_thread\<close> is the chunk a started
  \<open>_is_silero_speech\<close> thread is working on, while that thread has not finished.
\<close>

record vad =
  is_webrtc_speech_active :: bool
  is_silero_speech_active :: bool
  silero_working :: bool
  silero_thread :: "bytes option"

text \<open>\<open>VoiceActivityDetector()\<close>\<close>

definition new_vad :: vad where
  "new_vad = \<lparr> is_webrtc_speech_active = False, is_silero_speech_active = False,
               silero_working = False, silero_thread = None \<rparr>"

text \<open>
  The two models are external. \<open>webrtc_vad_model\<close> is \<open>None\<close> before initialisation,
  otherwise it classifies one 10 ms frame (320 bytes). \<open>silero_vad_model\<close>, when
  present, is idealised as the probability \<open>_is_silero_speech\<close> ends up with for a
  chunk (the maximum over its 512-sample windows).
\<close>

record vad_models =
  webrtc_vad_model :: "(bytes \<Rightarrow> bool) option"
  silero_vad_model :: "(bytes \<Rightarrow> real) option"
  SILERO_SENSITIVITY :: real

text \<open>
  The frames visited by \<open>for i in range(0, len(chunk) - frame_bytes + 1, frame_bytes)\<close>.
\<close>

definition frame_bytes :: nat where
  "frame_bytes = 160 * 2"

definition webrtc_frames :: "bytes \<Rightarrow> bytes list" where
  "webrtc_frames chunk =
     map (\<lambda>k. take frame_bytes (drop (k * frame_bytes) chunk))
         [0 ..< length chunk div frame_bytes]"

definition is_webrtc_speech :: "vad_models \<Rightarrow> bytes \<Rightarrow> bool \<Rightarrow> vad \<Rightarrow> bool \<times> vad" where
  "is_webrtc_speech m chunk all_frames_must_be_true v =
     (case webrtc_vad_model m of
        None \<Rightarrow> (False, v)
      | Some is_speech \<Rightarrow>
          if \<not> all_frames_must_be_true
          then (if list_ex is_speech (webrtc_frames chunk)
                then (True, v\<lparr> is_webrtc_speech_active := True \<rparr>)
                else (False, v\<lparr> is_webrtc_speech_active := False \<rparr>))
          else
            let speech_frames = length (filter is_speech (webrtc_frames chunk));
                total_frames = length (webrtc_frames chunk);
                speech_detected = speech_frames > total_frames div 2
            in (speech_detected, v\<lparr> is_webrtc_speech_active := speech_detected \<rparr>))"

text \<open>
  The body of \<open>_is_silero_speech\<close>, run to its end. Without a model it returns at once
  and leaves both flags alone; \<open>np.frombuffer(chunk, dtype=np.int16)\<close> raises on an odd
  number of bytes, which ends the thread with the flags as they were.
\<close>

definition is_silero_speech :: "vad_models \<Rightarrow> bytes \<Rightarrow> vad \<Rightarrow> vad" where
  "is_silero_speech m chunk v =
     (case silero_vad_model m of
        None \<Rightarrow> v
      | Some model \<Rightarrow>
          if odd (length chunk) then v\<lparr> silero_working := True \<rparr>
          else v\<lparr> is_silero_speech_active := model chunk > 1 - SILERO_SENSITIVITY m,
                  silero_working := False \<rparr>)"

text \<open>A started Silero thread, if there is one, runs to its end.\<close>

definition silero_thread_finish :: "vad_models \<Rightarrow> vad \<Rightarrow> vad" where
  "silero_thread_finish m v =
     (case silero_thread v of
        None \<Rightarrow> v
      | Some chunk \<Rightarrow> (is_silero_speech m chunk v)\<lparr> silero_thread := None \<rparr>)"

text \<open>
  \<open>_check_voice_activity\<close> starts the Silero thread and does not join it. Where a
  started thread may finish is the scheduler's choice; a schedule says whether it finishes
  before \<open>silero_working\<close> is tested (\<open>before_test\<close>) and whether it finishes before
  \<open>detect_speech_activity\<close> reads the flags (\<open>before_read\<close>).
\<close>

record schedule =
  before_test :: bool
  before_read :: bool

definition check_voice_activity :: "vad_models \<Rightarrow> schedule \<Rightarrow> bytes \<Rightarrow> vad \<Rightarrow> vad" where
  "check_voice_activity m sched data v =
     (let v1 = snd (is_webrtc_speech m data False v);
          v2 = (if before_test sched then silero_thread_finish m v1 else v1)
      in if is_webrtc_speech_active v2 \<and> \<not> silero_working v2
         then v2\<lparr> silero_working := True, silero_thread := Some data \<rparr>
         else v2)"

definition detect_speech_activity ::
  "vad_models \<Rightarrow> schedule \<Rightarrow> bytes \<Rightarrow> vad \<Rightarrow> bool \<times> vad" where
  "detect_speech_activity m sched audio_chunk v =
     (if length audio_chunk = 0 then (False, v)
      else
        let v1 = check_voice_activity m sched audio_chunk v;
            v2 = (if before_read sched then silero_thread_finish m v1 else v1)
        in (is_webrtc_speech_active v2 \<and> is_silero_speech_active v2, v2))"

text \<open>
  What each detector says about a chunk on its own: the coarse detector's early-out over
  the frames, and the precise detector's thresholded probability.
\<close>

definition webrtc_verdict :: "vad_models \<Rightarrow> bytes \<Rightarrow> bool" where
  "webrtc_verdict m chunk =
     (case webrtc_vad_model m of
        None \<Rightarrow> False
      | Some is_speech \<Rightarrow> list_ex is_speech (webrtc_frames chunk))"

definition silero_verdict :: "vad_models \<Rightarrow> bytes \<Rightarrow> bool" where
  "silero_verdict m chunk =
     (case silero_vad_model m of
        None \<Rightarrow> False
      | Some model \<Rightarrow> model chunk > 1 - SILERO_SENSITIVITY m)"

section \<open>Session store\<close>

subsection \<open>The Python runtime\<close>

text \<open>
  The conversions of the Python runtime that the session code calls: \<open>str\<close> on an int and
  on a float, \<open>int\<close> and \<open>float\<close> on a string (\<open>None\<close> where Python raises
  \<open>ValueError\<close>), and \<open>base64.b64decode\<close> (\<open>None\<close> where it raises). They are a
  parameter of the model.
\<close>

record runtime =
  str_of_int :: "int \<Rightarrow> string"
  int_of_str :: "string \<Rightarrow> int option"
  str_of_float :: "real \<Rightarrow> string"
  float_of_str :: "string \<Rightarrow> real option"
  b64decode :: "string \<Rightarrow> bytes option"

text \<open>\<open>str.lower()\<close> on ASCII letters.\<close>

definition lower_char :: "char \<Rightarrow> char" where
  "lower_char c =
     (if (65::nat) \<le> of_char c \<and> of_char c \<le> (90::nat)
      then char_of (of_char c + (32::nat)) else c)"

definition lower :: "string \<Rightarrow> string" where
  "lower s = map lower_char s"

text \<open>\<open>str(True)\<close> and \<open>str(False)\<close>.\<close>

definition str_of_bool :: "bool \<Rightarrow> string" where
  "str_of_bool b = (if b then ''True'' else ''False'')"

subsection \<open>session.py: to\_dict, get\_audio\_buffers, from\_dict\<close>

definition state_value :: "SpeechState \<Rightarrow> string" where
  "state_value st =
     (case st of INACTIVE \<Rightarrow> ''inactive'' | ACTIVE \<Rightarrow> ''active'' | SILENCE \<Rightarrow> ''silence'')"

text \<open>\<open>SpeechState(value)\<close>: \<open>None\<close> where the enum lookup raises \<open>ValueError\<close>.\<close>

definition SpeechState_of_value :: "string \<Rightarrow> SpeechState option" where
  "SpeechState_of_value v =
     (if v = ''inactive'' then Some INACTIVE
      else if v = ''active'' then Some ACTIVE
      else if v = ''silence'' then Some SILENCE
      else None)"

text \<open>An \<open>Optional[float]\<close> field in \<open>to_dict\<close>: \<open>None\<close> becomes the empty string.\<close>

definition str_of_optional_float :: "runtime \<Rightarrow> real option \<Rightarrow> string" where
  "str_of_optional_float rt x = (case x of None \<Rightarrow> [] | Some t \<Rightarrow> str_of_float rt t)"

text \<open>
  \<open>to_dict\<close>: the scalar fields in the order of the dataclass, all values as strings; the
  two buffers are popped.
\<close>

definition to_dict :: "runtime \<Rightarrow> SpeechSession \<Rightarrow> (string \<times> string) list" where
  "to_dict rt session =
     [ (''state'', state_value (state session)),
       (''silence_start_time'', str_of_optional_float rt (silence_start_time session)),
       (''session_start_time'', str_of_optional_float rt (session_start_time session)),
       (''accumulated_audio_bytes'', str_of_int rt (accumulated_audio_bytes session)),
       (''last_stt_send_time'', str_of_optional_float rt (last_stt_send_time session)),
       (''last_published_len'', str_of_int rt (last_published_len session)),
       (''silence_buffer_start_len'', str_of_int rt (silence_buffer_start_len session)),
       (''source_lang'', source_lang session),
       (''target_lang'', target_lang session),
       (''translation_enabled'', str_of_bool (translation_enabled session)) ]"


text \<open>The keyword arguments \<open>SpeechSession(**data)\<close> accepts.\<close>

definition field_names :: "string list" where
  "field_names =
     [ ''state'', ''audio_buffer'', ''pre_speech_buffer'', ''silence_start_time'',
       ''session_start_time'', ''accumulated_audio_bytes'', ''last_stt_send_time'',
       ''last_published_len'', ''silence_buffer_start_len'', ''source_lang'',
       ''target_lang'', ''translation_enabled'' ]"

text \<open>
  A numeric field: \<open>int(...)\<close> under \<open>try\<close>, \<open>0\<close> on \<open>ValueError\<close>; the dataclass
  default \<open>0\<close> when the key is absent.
\<close>

definition decode_int_field :: "runtime \<Rightarrow> (string \<times> string) list \<Rightarrow> string \<Rightarrow> int" where
  "decode_int_field rt data key =
     (case map_of data key of
        None \<Rightarrow> 0
      | Some v \<Rightarrow> (case int_of_str rt v of None \<Rightarrow> 0 | Some n \<Rightarrow> n))"

text \<open>
  A timestamp field: the empty string is \<open>None\<close>, anything else goes through
  \<open>float(...)\<close> under \<open>try\<close>, \<open>None\<close> on \<open>ValueError\<close>; the dataclass default
  \<open>None\<close> when the key is absent.
\<close>

definition decode_float_field ::
  "runtime \<Rightarrow> (string \<times> string) list \<Rightarrow> string \<Rightarrow> real option" where
  "decode_float_field rt data key =
     (case map_of data key of
        None \<Rightarrow> None
      | Some v \<Rightarrow> if v = [] then None else float_of_str rt v)"

text \<open>
  A buffer when no separate binary buffers were passed: the legacy base64 field of the
  hash, if there is one.
\<close>

definition decode_legacy_buffer ::
  "runtime \<Rightarrow> (string \<times> string) list \<Rightarrow> string \<Rightarrow> error + bytes" where
  "decode_legacy_buffer rt data key =
     (case map_of data key of
        None \<Rightarrow> Inr []
      | Some v \<Rightarrow> (case b64decode rt v of None \<Rightarrow> Inl ValueError | Some b \<Rightarrow> Inr b))"

definition buffer_or_empty :: "(string \<times> bytes) list \<Rightarrow> string \<Rightarrow> bytes" where
  "buffer_or_empty audio_buffers key =
     (case map_of audio_buffers key of None \<Rightarrow> [] | Some b \<Rightarrow> b)"

text \<open>
  \<open>from_dict(data, audio_buffers)\<close>. \<open>data\<close> is the hash as loaded, every value a
  string; \<open>audio_buffers\<close> is the dict of binary buffers (\<open>None\<close> and \<open>{}\<close> are both
  the empty list). It raises on a bad legacy base64 field, on a \<open>state\<close> that is no
  \<open>SpeechState\<close>, and in \<open>cls(**data)\<close> on a key that is no field.
\<close>

definition from_dict ::
  "runtime \<Rightarrow> config \<Rightarrow> (string \<times> string) list \<Rightarrow> (string \<times> bytes) list
     \<Rightarrow> error + SpeechSession" where
  "from_dict rt cfg data audio_buffers =
     (case (if audio_buffers \<noteq> []
            then Inr (buffer_or_empty audio_buffers ''audio_buffer'')
            else decode_legacy_buffer rt data ''audio_buffer'') of
        Inl e \<Rightarrow> Inl e
      | Inr ab \<Rightarrow>
     (case (if audio_buffers \<noteq> []
            then Inr (buffer_or_empty audio_buffers ''pre_speech_buffer'')
            else decode_legacy_buffer rt data ''pre_speech_buffer'') of
        Inl e \<Rightarrow> Inl e
      | Inr psb \<Rightarrow>
     (case (case map_of data ''state'' of
              None \<Rightarrow> Some INACTIVE
            | Some v \<Rightarrow> SpeechState_of_value v) of
        None \<Rightarrow> Inl ValueError
      | Some st \<Rightarrow>
          if \<not> list_all (\<lambda>key. key \<in> set field_names) (map fst data) then Inl TypeError
          else Inr
            \<lparr> state = st,
              audio_buffer = ab,
              pre_speech_buffer = psb,
              silence_start_time = decode_float_field rt data ''silence_start_time'',
              session_start_time = decode_float_field rt data ''session_start_time'',
              accumulated_audio_bytes = decode_int_field rt data ''accumulated_audio_bytes'',
              last_stt_send_time = decode_float_field rt data ''last_stt_send_time'',
              last_published_len = decode_int_field rt data ''last_published_len'',
              silence_buffer_start_len = decode_int_field rt data ''silence_buffer_start_len'',
              source_lang = (case map_of data ''source_lang'' of
                               None \<Rightarrow> DEFAULT_SOURCE_LANGUAGE cfg | Some v \<Rightarrow> v),
              target_lang = (case map_of data ''target_lang'' of
                               None \<Rightarrow> DEFAULT_TARGET_LANGUAGE cfg | Some v \<Rightarrow> v),
              translation_enabled = (case map_of data ''translation_enabled'' of
                                       None \<Rightarrow> True | Some v \<Rightarrow> lower v = ''true'') \<rparr>)))"

subsection \<open>The Redis keyspace\<close>

text \<open>
  One keyspace holds the session hashes and the binary buffers. A hash command on a
  string key, or a string command on a hash key, is refused by Redis (\<open>WRONGTYPE\<close>), which
  the client raises as \<open>ResponseError\<close>. Expiry is not modelled.
\<close>

datatype redis_value = Hash "(string \<times> string) list" | Str bytes

type_synonym redis = "string \<rightharpoonup> redis_value"

definition hgetall :: "redis \<Rightarrow> string \<Rightarrow> error + (string \<times> string) list" where
  "hgetall r key =
     (case r key of
        None \<Rightarrow> Inr []
      | Some (Hash h) \<Rightarrow> Inr h
      | Some (Str b) \<Rightarrow> Inl ResponseError)"

definition hset :: "redis \<Rightarrow> string \<Rightarrow> (string \<times> string) list \<Rightarrow> error + redis" where
  "hset r key mapping =
     (case r key of
        None \<Rightarrow> Inr (r(key \<mapsto> Hash (fold (\<lambda>(k, v). AList.update k v) mapping [])))
      | Some (Hash h) \<Rightarrow> Inr (r(key \<mapsto> Hash (fold (\<lambda>(k, v). AList.update k v) mapping h)))
      | Some (Str b) \<Rightarrow> Inl ResponseError)"

definition redis_get :: "redis \<Rightarrow> string \<Rightarrow> error + bytes option" where
  "redis_get r key =
     (case r key of
        None \<Rightarrow> Inr None
      | Some (Str b) \<Rightarrow> Inr (Some b)
      | Some (Hash h) \<Rightarrow> Inl ResponseError)"



subsection \<open>RedisService.save\_session and load\_session\<close>

definition SESSION_PREFIX :: string where
  "SESSION_PREFIX = ''session:''"


text \<open>A buffer read back enters \<open>audio_buffers\<close> only when it is there and not empty.\<close>

definition loaded_buffer :: "string \<Rightarrow> bytes option \<Rightarrow> (string \<times> bytes) list" where
  "loaded_buffer name data =
     (case data of
        None \<Rightarrow> []
      | Some b \<Rightarrow> if b \<noteq> [] then [(name, b)] else [])"

definition load_session :: "runtime \<Rightarrow> config \<Rightarrow> string \<Rightarrow> redis \<Rightarrow> error + SpeechSession" where
  "load_session rt cfg client_id r =
     (let session_key = SESSION_PREFIX @ client_id;
          audio_buffer_key = SESSION_PREFIX @ client_id @ '':audio_buffer'';
          pre_speech_buffer_key = SESSION_PREFIX @ client_id @ '':pre_speech_buffer''
      in case hgetall r session_key of
           Inl e \<Rightarrow> Inl e
         | Inr session_data \<Rightarrow>
             if session_data \<noteq> [] then
               (case redis_get r audio_buffer_key of
                  Inl e \<Rightarrow> Inl e
                | Inr audio_buffer_data \<Rightarrow>
                    (case redis_get r pre_speech_buffer_key of
                       Inl e \<Rightarrow> Inl e
                     | Inr pre_speech_buffer_data \<Rightarrow>
                         from_dict rt cfg session_data
                           (loaded_buffer ''audio_buffer'' audio_buffer_data
                            @ loaded_buffer ''pre_speech_buffer'' pre_speech_buffer_data)))
             else Inr (new_session cfg))"

section \<open>Result router (websocket\_handler.py)\<close>

text \<open>A decoded JSON value, as \<open>json.loads\<close> returns it.\<close>

datatype json =
    JNull
  | JBool bool
  | JInt int
  | JFloat real
  | JStr string
  | JList "json list"
  | JDict "(string \<times> json) list"

text \<open>Python truthiness of a decoded JSON value (\<open>bool(x)\<close>, \<open>x or y\<close>, \<open>if x\<close>).\<close>

definition truthy :: "json \<Rightarrow> bool" where
  "truthy x =
     (case x of
        JNull \<Rightarrow> False
      | JBool b \<Rightarrow> b
      | JInt n \<Rightarrow> n \<noteq> 0
      | JFloat r \<Rightarrow> r \<noteq> 0
      | JStr s \<Rightarrow> s \<noteq> []
      | JList l \<Rightarrow> l \<noteq> []
      | JDict d \<Rightarrow> d \<noteq> [])"

text \<open>\<open>str.strip()\<close> on ASCII whitespace.\<close>

definition is_space :: "char \<Rightarrow> bool" where
  "is_space c \<longleftrightarrow> of_char c \<in> {9, 10, 11, 12, 13, 28, 29, 30, 31, 32 :: nat}"

definition strip :: "string \<Rightarrow> string" where
  "strip s = rev (dropWhile is_space (rev (dropWhile is_space s)))"

text \<open>
  \<open>int(result_data.get("segment_id", "0"))\<close> under \<open>try\<close>, \<open>0\<close> on any exception.
\<close>

definition parse_segment_id :: "runtime \<Rightarrow> json option \<Rightarrow> int" where
  "parse_segment_id rt x =
     (case x of
        None \<Rightarrow> (case int_of_str rt ''0'' of None \<Rightarrow> 0 | Some n \<Rightarrow> n)
      | Some (JStr s) \<Rightarrow> (case int_of_str rt s of None \<Rightarrow> 0 | Some n \<Rightarrow> n)
      | Some (JInt n) \<Rightarrow> n
      | Some (JBool b) \<Rightarrow> (if b then 1 else 0)
      | Some (JFloat r) \<Rightarrow> py_int_of_float r
      | Some _ \<Rightarrow> 0)"

text \<open>
  \<open>bool((result_data.get("translation") or "").strip())\<close>: a truthy value that is no
  string has no \<open>strip\<close>.
\<close>

definition is_translation :: "json option \<Rightarrow> error + bool" where
  "is_translation x =
     (case x of
        None \<Rightarrow> Inr False
      | Some v \<Rightarrow>
          if \<not> truthy v then Inr False
          else (case v of JStr s \<Rightarrow> Inr (strip s \<noteq> []) | _ \<Rightarrow> Inl AttributeError))"

text \<open>The parse of \<open>result_data.get("is_final", False)\<close>.\<close>

definition parse_is_final :: "json option \<Rightarrow> bool" where
  "parse_is_final x =
     (case x of
        None \<Rightarrow> False
      | Some (JStr s) \<Rightarrow> lower s \<in> {''true'', ''1'', ''yes''}
      | Some (JBool b) \<Rightarrow> b
      | Some v \<Rightarrow> truthy v)"

text \<open>The frames the router sends on a client's websocket.\<close>

datatype message =
    Realtime json json json json
  | UtteranceEnd string

definition get_or :: "(string \<rightharpoonup> json) \<Rightarrow> string \<Rightarrow> json \<Rightarrow> json" where
  "get_or d key dflt = (case d key of None \<Rightarrow> dflt | Some v \<Rightarrow> v)"

text \<open>
  The gateway process as the router sees it: the flow-control dicts and the job stream
  (\<open>gw\<close>), the Redis keyspace, the ids in \<open>connected_clients\<close>, the frames sent so far
  (with the client they went to), and the \<open>results_forwarded\<close> metric. A send on a
  connected websocket is taken to succeed.
\<close>

record server =
  gw :: gateway
  redis_db :: redis
  connected_clients :: "string set"
  sent :: "(string \<times> message) list"
  results_forwarded :: int

definition get_last_sent :: "gateway \<Rightarrow> string \<Rightarrow> int" where
  "get_last_sent g c = (case latest_segment_id_sent g c of None \<Rightarrow> - 1 | Some n \<Rightarrow> n)"

text \<open>
  The two predicates the source computes before looking at the segment id
  (\<open>should_unlock_job\<close>) and after (\<open>should_forward\<close>).
\<close>

definition should_unlock_job :: "bool \<Rightarrow> bool \<Rightarrow> bool" where
  "should_unlock_job translation_on is_translation_result \<longleftrightarrow>
     \<not> translation_on \<or> is_translation_result"

definition should_forward :: "bool \<Rightarrow> bool \<Rightarrow> int \<Rightarrow> int \<Rightarrow> bool" where
  "should_forward translation_on is_translation_result segment_id last_sent \<longleftrightarrow>
     (if translation_on then segment_id > last_sent \<and> is_translation_result
      else segment_id > last_sent)"

text \<open>
  The body of \<open>if should_forward:\<close>. The frames are sent in the order the tasks are
  created: the \<open>realtime\<close> frame, then \<open>utterance_end\<close>. The partial \<open>hset\<close> writes
  \<open>last_published_len\<close> as it is when the statement runs, before the publish task has
  started, and swallows its own exceptions.
\<close>

definition forward_body ::
  "runtime \<Rightarrow> config \<Rightarrow> (string \<rightharpoonup> json) \<Rightarrow> string \<Rightarrow> int \<Rightarrow> SpeechSession \<Rightarrow> bool
     \<Rightarrow> server \<Rightarrow> error + server" where
  "forward_body rt cfg result_data client_id segment_id session is_translation_result srv =
     (let translation_on = translation_enabled session;
          unlock = should_unlock_job translation_on is_translation_result;
          srv1 = srv\<lparr> gw := (gw srv)\<lparr> latest_segment_id_sent :=
                           (latest_segment_id_sent (gw srv))(client_id \<mapsto> segment_id) \<rparr> \<rparr>;
          srv2 =
            (if client_id \<in> connected_clients srv1 then
               let msg = Realtime (get_or result_data ''text'' (JStr []))
                                  (get_or result_data ''translation'' (JStr []))
                                  (get_or result_data ''segment_id'' (JStr []))
                                  (get_or result_data ''processing_time'' (JFloat 0));
                   is_final = parse_is_final (result_data ''is_final'');
                   should_send_utterance_end =
                     (is_final \<and> (\<not> translation_on \<or> is_translation_result))
               in srv1\<lparr> sent := sent srv1 @ [(client_id, msg)]
                               @ (if should_send_utterance_end
                                  then [(client_id, UtteranceEnd client_id)] else []),
                         results_forwarded := results_forwarded srv1 + 1 \<rparr>
             else srv1);
          srv3 =
            (if unlock
             then srv2\<lparr> gw := (gw srv2)\<lparr> job_in_flight :=
                              (job_in_flight (gw srv2))(client_id \<mapsto> False) \<rparr> \<rparr>
             else srv2)
      in
      if unlock \<and> len (audio_buffer session) > last_published_len session then
        let r' = (case hset (redis_db srv3) (SESSION_PREFIX @ client_id)
                         [(''last_published_len'', str_of_int rt (last_published_len session))] of
                    Inl e \<Rightarrow> redis_db srv3
                  | Inr r \<Rightarrow> r)
        in (case publish_job_if_needed cfg client_id session False False (gw srv3) of
              Inl e \<Rightarrow> Inl e
            | Inr (published, g', session') \<Rightarrow> Inr (srv3\<lparr> gw := g', redis_db := r' \<rparr>))
      else Inr srv3)"

text \<open>
  \<open>forward_result_to_client\<close>. The subscriber hands over only results whose
  \<open>client_id\<close> equals the string id of its channel, so a \<open>client_id\<close> that is no string
  is treated like a missing one.
\<close>

definition forward_result_to_client ::
  "runtime \<Rightarrow> config \<Rightarrow> (string \<rightharpoonup> json) \<Rightarrow> server \<Rightarrow> error + server" where
  "forward_result_to_client rt cfg result_data srv =
     (case result_data ''client_id'' of
        Some (JStr client_id) \<Rightarrow>
          if client_id = [] then Inr srv
          else
            let segment_id = parse_segment_id rt (result_data ''segment_id'') in
            (case load_session rt cfg client_id (redis_db srv) of
               Inl e \<Rightarrow> Inl e
             | Inr session \<Rightarrow>
                 (case is_translation (result_data ''translation'') of
                    Inl e \<Rightarrow> Inl e
                  | Inr is_translation_result \<Rightarrow>
                      let last_sent = get_last_sent (gw srv) client_id in
                      if should_forward (translation_enabled session) is_translation_result
                           segment_id last_sent
                      then forward_body rt cfg result_data client_id segment_id session
                             is_translation_result srv
                      else Inr srv))
      | _ \<Rightarrow> Inr srv)"

text \<open>How many \<open>utterance_end\<close> frames have been sent to a client.\<close>

definition utterance_ends :: "server \<Rightarrow> string \<Rightarrow> nat" where
  "utterance_ends srv c = count_list (sent srv) (c, UtteranceEnd c)"

text \<open>How many frames of any kind have been sent.\<close>

definition frames_sent :: "server \<Rightarrow> nat" where
  "frames_sent srv = length (sent srv)"

section \<open>Reference definitions from the specification\<close>

text \<open>
  The gateway at start-up (\<open>RedisService.__init__\<close>, \<open>GatewayService.__init__\<close>): empty
  dicts, an empty stream, zeroed metrics.
\<close>

definition new_gateway :: gateway where
  "new_gateway =
     \<lparr> job_in_flight = Map.empty, latest_segment_id_sent = Map.empty,
       audio_jobs = [], jobs_published = 0, audio_chunks_processed = 0 \<rparr>"

text \<open>
  The new-speech window as the specification words it: \<open>[silence_buffer_start_len,
  length(audio_buffer))\<close> when \<open>silence_buffer_start_len > last_published_len\<close>, otherwise
  \<open>[last_published_len, length(audio_buffer))\<close>; a window \<open>[a, b)\<close> holds
  \<open>max 0 (b - a)\<close> bytes; seconds are bytes over \<open>SAMPLE_RATE \<times> 2\<close>.
\<close>

definition spec_new_speech_window :: "SpeechSession \<Rightarrow> int \<times> int" where
  "spec_new_speech_window session =
     (if silence_buffer_start_len session > last_published_len session
      then (silence_buffer_start_len session, len (audio_buffer session))
      else (last_published_len session, len (audio_buffer session)))"

definition spec_new_speech_seconds :: "config \<Rightarrow> SpeechSession \<Rightarrow> real" where
  "spec_new_speech_seconds cfg session =
     (case spec_new_speech_window session of
        (a, b) \<Rightarrow> real_of_int (max 0 (b - a)) / real_of_int (SAMPLE_RATE cfg * 2))"

text \<open>An active session holding \<open>n\<close> zero bytes of audio, nothing published yet.\<close>

definition active_session :: "config \<Rightarrow> nat \<Rightarrow> SpeechSession" where
  "active_session cfg n = (new_session cfg)\<lparr> state := ACTIVE, audio_buffer := replicate n 0 \<rparr>"


section \<open>A runtime fragment for worked examples\<close>

text \<open>
  Decimal integers as Python prints and reads them, and the floats with an integral
  value, which Python prints with a trailing \<open>.0\<close>. Enough of the runtime to evaluate the
  session code on concrete stored values; no base64 is needed by the examples.
\<close>

function str_of_nat :: "nat \<Rightarrow> string" where
  "str_of_nat n =
     (if n < 10 then [''0123456789'' ! n]
      else str_of_nat (n div 10) @ [''0123456789'' ! (n mod 10)])"
  by pat_completeness auto
termination
  by (relation "measure id") auto

definition decimal_str_of_int :: "int \<Rightarrow> string" where
  "decimal_str_of_int i =
     (if i < 0 then CHR ''-'' # str_of_nat (nat (- i)) else str_of_nat (nat i))"

definition is_digit :: "char \<Rightarrow> bool" where
  "is_digit c \<longleftrightarrow> (48::nat) \<le> of_char c \<and> of_char c \<le> (57::nat)"

fun nat_of_digits :: "nat \<Rightarrow> string \<Rightarrow> nat option" where
  "nat_of_digits acc [] = Some acc"
| "nat_of_digits acc (c # cs) =
     (if is_digit c then nat_of_digits (10 * acc + (of_char c - 48)) cs else None)"

definition decimal_int_of_str :: "string \<Rightarrow> int option" where
  "decimal_int_of_str s =
     (case s of
        [] \<Rightarrow> None
      | c # cs \<Rightarrow>
          if c = CHR ''-''
          then (if cs = [] then None else map_option (\<lambda>n. - int n) (nat_of_digits 0 cs))
          else map_option int (nat_of_digits 0 s))"

definition integral_str_of_float :: "real \<Rightarrow> string" where
  "integral_str_of_float x = decimal_str_of_int \<lfloor>x\<rfloor> @ ''.0''"

definition integral_float_of_str :: "string \<Rightarrow> real option" where
  "integral_float_of_str s =
     (if length s > 2 \<and> drop (length s - 2) s = ''.0''
      then map_option real_of_int (decimal_int_of_str (take (length s - 2) s))
      else None)"

definition decimal_runtime :: runtime where
  "decimal_runtime =
     \<lparr> str_of_int = decimal_str_of_int,
       int_of_str = decimal_int_of_str,
       str_of_float = integral_str_of_float,
       float_of_str = integral_float_of_str,
       b64decode = (\<lambda>s. None) \<rparr>"

section \<open>Conditions used by the properties\<close>







text \<open>
  The silence timer is set whenever the session is ACTIVE, and no silence marker is
  recorded.
\<close>

definition timer_runs :: "SpeechSession \<Rightarrow> bool" where
  "timer_runs s \<longleftrightarrow>
     (state s = ACTIVE \<longrightarrow> silence_start_time s \<noteq> None) \<and> silence_buffer_start_len s = 0"

section \<open>Sample inputs\<close>

text \<open>The clock of a call whose readings all fall on the instant \<open>t\<close>.\<close>

definition at_time :: "real \<Rightarrow> clock" where
  "at_time t = \<lparr> t_session = t, t_silence = t, t_check = t \<rparr>"

text \<open>
  What \<open>from_dict\<close> needs in order not to raise: a \<open>state\<close> that names a
  \<open>SpeechState\<close> (or none), no key that is not a field, and, when no binary buffers
  are passed, legacy buffer fields that decode.
\<close>

definition loadable :: "runtime \<Rightarrow> (string \<times> string) list \<Rightarrow> (string \<times> bytes) list \<Rightarrow> bool" where
  "loadable rt data audio_buffers \<longleftrightarrow>
     (case map_of data ''state'' of None \<Rightarrow> True | Some v \<Rightarrow> SpeechState_of_value v \<noteq> None)
     \<and> list_all (\<lambda>key. key \<in> set field_names) (map fst data)
     \<and> (audio_buffers \<noteq> []
          \<or> (decode_legacy_buffer rt data ''audio_buffer'' \<noteq> Inl ValueError
               \<and> decode_legacy_buffer rt data ''pre_speech_buffer'' \<noteq> Inl ValueError))"

text \<open>A stored hash whose numbers and timestamps are all garbage.\<close>

definition corrupted_hash :: "(string \<times> string) list" where
  "corrupted_hash =
     [ (''state'', ''active''),
       (''silence_start_time'', ''soon''),
       (''session_start_time'', []),
       (''accumulated_audio_bytes'', ''12x''),
       (''last_stt_send_time'', ''1.5.2''),
       (''last_published_len'', []),
       (''silence_buffer_start_len'', ''-''),
       (''source_lang'', ''en''),
       (''target_lang'', ''fr''),
       (''translation_enabled'', ''TRUE'') ]"

text \<open>A session with binary audio, a timestamp and non-zero counters.\<close>

definition sample_session :: SpeechSession where
  "sample_session =
     \<lparr> state = ACTIVE, audio_buffer = [0, 255, 13, 10, 0], pre_speech_buffer = [],
       silence_start_time = Some 1700000000, session_start_time = None,
       accumulated_audio_bytes = 5, last_stt_send_time = None,
       last_published_len = 3, silence_buffer_start_len = 0,
       source_lang = ''en'', target_lang = ''en'', translation_enabled = False \<rparr>"

text \<open>
  Models that hear speech in every frame and in every chunk, with the default
  sensitivity; and a schedule on which the Silero thread finishes only after
  \<open>detect_speech_activity\<close> has returned.
\<close>

definition eager_models :: vad_models where
  "eager_models =
     \<lparr> webrtc_vad_model = Some (\<lambda>frame. True),
       silero_vad_model = Some (\<lambda>chunk. 1),
       SILERO_SENSITIVITY = 7 / 10 \<rparr>"

definition thread_lags :: schedule where
  "thread_lags = \<lparr> before_test = False, before_read = False \<rparr>"

text \<open>
  A gateway serving client \<open>c1\<close>: connected, one job in flight, segment 7 already
  forwarded, nothing stored for the client yet (so its session is the default one, with
  translation enabled).
\<close>

definition busy_server :: server where
  "busy_server =
     \<lparr> gw = new_gateway\<lparr> job_in_flight := [''c1'' \<mapsto> True],
                          latest_segment_id_sent := [''c1'' \<mapsto> 7] \<rparr>,
       redis_db = Map.empty,
       connected_clients = {''c1''},
       sent = [],
       results_forwarded = 0 \<rparr>"

text \<open>
  The same gateway with a stored single-stage session for \<open>c1\<close> (source and target
  language equal, translation disabled).
\<close>

definition single_stage_server :: server where
  "single_stage_server =
     busy_server\<lparr> redis_db :=
       [SESSION_PREFIX @ ''c1'' \<mapsto> Hash (to_dict decimal_runtime sample_session)] \<rparr>"

text \<open>A final translation result for a segment, as the translation worker publishes it.\<close>

definition translation_result :: "string \<Rightarrow> (string \<rightharpoonup> json)" where
  "translation_result segment =
     [''client_id'' \<mapsto> JStr ''c1'', ''segment_id'' \<mapsto> JStr segment,
      ''text'' \<mapsto> JStr ''hello'', ''translation'' \<mapsto> JStr ''hola'',
      ''is_final'' \<mapsto> JStr ''true'']"

text \<open>A final transcription result for a segment, as the STT worker publishes it.\<close>

definition stt_result :: "string \<Rightarrow> (string \<rightharpoonup> json)" where
  "stt_result segment =
     [''client_id'' \<mapsto> JStr ''c1'', ''segment_id'' \<mapsto> JStr segment,
      ''text'' \<mapsto> JStr ''hello'', ''translation'' \<mapsto> JStr [],
      ''is_final'' \<mapsto> JStr ''true'']"

section \<open>Properties of the job dispatcher\<close>

lemmas eval_publish =
  publish_job_if_needed_def Let_def default_config_def active_session_def new_session_def
  new_gateway_def get_in_flight_def new_speech_bytes_def len_def
  GatewayService_publish_audio_job_def RedisService_publish_audio_job_def

text \<open>
  A non-final, unforced call publishes exactly when no job is in flight, the buffer has
  grown past \<open>last_published_len\<close>, and the specification's new-speech window reaches
  the minimum.
\<close>

lemma published_iff:
  assumes "0 \<le> last_published_len s" and "SAMPLE_RATE cfg \<noteq> 0"
  shows "(\<exists>g' s'. publish_job_if_needed cfg c s False False g = Inr (True, g', s'))
     \<longleftrightarrow> (\<not> get_in_flight g c \<and> len (audio_buffer s) > last_published_len s
          \<and> spec_new_speech_seconds cfg s \<ge> MINIMUM_NEW_AUDIO_SECONDS cfg)"
  using assms
  by (auto simp: publish_job_if_needed_def Let_def spec_new_speech_seconds_def
        spec_new_speech_window_def new_speech_bytes_def max_def split: if_splits)

text \<open>
  Claim C7. A non-final publish requires the new speech to reach
  \<open>MINIMUM_NEW_AUDIO_SECONDS\<close>, where new speech is the window
  \<open>[silence_buffer_start_len, length(audio_buffer))\<close> when
  \<open>silence_buffer_start_len > last_published_len\<close> and
  \<open>[last_published_len, length(audio_buffer))\<close> otherwise, in seconds of
  \<open>bytes / (SAMPLE_RATE \<times> 2)\<close>. For a byte count \<open>last_published_len \<ge> 0\<close> and a
  non-zero sample rate the source's test and the specification's window decide the same
  publishes. With the default settings, nothing published, no marker and no job in
  flight, 31999 bytes do not publish and 32000 bytes do.
\<close>

theorem publish_requires_minimum_new_speech:
  "(0 \<le> last_published_len s \<longrightarrow> SAMPLE_RATE cfg \<noteq> 0 \<longrightarrow>
      ((\<exists>g' s'. publish_job_if_needed cfg c s False False g = Inr (True, g', s'))
        \<longleftrightarrow> (\<not> get_in_flight g c \<and> len (audio_buffer s) > last_published_len s
          \<and> spec_new_speech_seconds cfg s \<ge> MINIMUM_NEW_AUDIO_SECONDS cfg)))
   \<and> publish_job_if_needed default_config c (active_session default_config 31999) False False
        new_gateway
      = Inr (False, new_gateway, active_session default_config 31999)
   \<and> (\<exists>g' s'. publish_job_if_needed default_config c (active_session default_config 32000)
                 False False new_gateway = Inr (True, g', s')
              \<and> map job_audio (audio_jobs g') = [replicate 32000 0]
              \<and> map job_is_final (audio_jobs g') = [False])"
proof (intro conjI impI)
  assume "0 \<le> last_published_len s" "SAMPLE_RATE cfg \<noteq> 0"
  then show "(\<exists>g' s'. publish_job_if_needed cfg c s False False g = Inr (True, g', s'))
        \<longleftrightarrow> (\<not> get_in_flight g c \<and> len (audio_buffer s) > last_published_len s
          \<and> spec_new_speech_seconds cfg s \<ge> MINIMUM_NEW_AUDIO_SECONDS cfg)"
    by (rule published_iff)
next
  show "publish_job_if_needed default_config c (active_session default_config 31999) False False
        new_gateway
      = Inr (False, new_gateway, active_session default_config 31999)"
    by (simp add: eval_publish)
next
  show "\<exists>g' s'. publish_job_if_needed default_config c (active_session default_config 32000)
                 False False new_gateway = Inr (True, g', s')
              \<and> map job_audio (audio_jobs g') = [replicate 32000 0]
              \<and> map job_is_final (audio_jobs g') = [False]"
    by (simp add: eval_publish)
qed

theorem publish_requires_minimum_new_speech_witness:
  "0 \<le> last_published_len (active_session default_config 32000)
   \<and> SAMPLE_RATE default_config \<noteq> 0
   \<and> ((\<exists>g' s'. publish_job_if_needed default_config ''c1'' (active_session default_config 32000)
                   False False new_gateway = Inr (True, g', s'))
        \<longleftrightarrow> (\<not> get_in_flight new_gateway ''c1''
             \<and> len (audio_buffer (active_session default_config 32000))
                 > last_published_len (active_session default_config 32000)
             \<and> spec_new_speech_seconds default_config (active_session default_config 32000)
                 \<ge> MINIMUM_NEW_AUDIO_SECONDS default_config))
   \<and> spec_new_speech_seconds default_config (active_session default_config 32000) = 1"
  using publish_requires_minimum_new_speech
          [of "active_session default_config 32000" default_config "''c1''" new_gateway]
  by (simp add: active_session_def new_session_def default_config_def
        spec_new_speech_seconds_def spec_new_speech_window_def len_def)

text \<open>
  What an eligible non-final publish does when the stream is deeper than the limit: the
  stream and the metrics stay, the markers move and the client is marked in flight.
\<close>

lemma queue_full_publish_effect:
  assumes "SAMPLE_RATE cfg \<noteq> 0" and "\<not> get_in_flight g c"
    and "len (audio_buffer s) > last_published_len s"
    and "real_of_int (new_speech_bytes s) / real_of_int (SAMPLE_RATE cfg * 2)
           \<ge> MINIMUM_NEW_AUDIO_SECONDS cfg"
    and "int (length (audio_jobs g)) > MAX_QUEUE_DEPTH cfg"
  shows "publish_job_if_needed cfg c s False False g
         = Inr (True,
                g\<lparr> job_in_flight := (job_in_flight g)(c \<mapsto> True) \<rparr>,
                s\<lparr> last_published_len := len (audio_buffer s),
                   silence_buffer_start_len := 0 \<rparr>)"
  using assms
  by (simp add: publish_job_if_needed_def Let_def GatewayService_publish_audio_job_def
        RedisService_publish_audio_job_def)

text \<open>
  Claim C1. When the stream is deeper than \<open>MAX_QUEUE_DEPTH\<close> at an eligible publish,
  no job is appended and the publish should leave the in-flight flag,
  \<open>last_published_len\<close> and \<open>silence_buffer_start_len\<close> alone. The source does not
  append, but \<open>publish_job_if_needed\<close> ignores what \<open>publish_audio_job\<close> returned: with
  101 rows in the stream and the default limit of 100, an eligible 32000-byte buffer
  leaves the stream as it was, yet the client is marked in flight and
  \<open>last_published_len\<close> moves to 32000.
\<close>

theorem queue_full_publish_still_marks_in_flight:
  "publish_job_if_needed default_config c (active_session default_config 32000) False False
     (new_gateway\<lparr> audio_jobs := replicate 101 j \<rparr>)
   = Inr (True,
          new_gateway\<lparr> audio_jobs := replicate 101 j, job_in_flight := [c \<mapsto> True] \<rparr>,
          (active_session default_config 32000)\<lparr> last_published_len := 32000 \<rparr>)"
  by (simp add: eval_publish)


section \<open>Properties of the speech-session engine\<close>

lemmas eval_chunk =
  process_audio_chunk_def update_pre_speech_buffer_def on_speech_def mark_silence_start_def
  check_silence_timeout_def publish_or_skip_def in_silence_period_def start_speech_def
  end_speech_session_def py_int_of_float_def slice_from_def at_time_def eval_publish

subsection \<open>The pre-speech buffer\<close>

text \<open>
  Nothing after the trimming step touches \<open>pre_speech_buffer\<close> except the session reset,
  which empties it.
\<close>

lemma publish_job_if_needed_pre_speech:
  "publish_job_if_needed cfg c s fin force g = Inr (b, g', s')
   \<Longrightarrow> pre_speech_buffer s' = pre_speech_buffer s"
  by (auto simp: publish_job_if_needed_def Let_def split: if_splits)

lemma publish_or_skip_pre_speech:
  "publish_or_skip cfg c g s = Inr (b, g', s')
   \<Longrightarrow> pre_speech_buffer s' = pre_speech_buffer s"
  by (auto simp: publish_or_skip_def split: if_splits sum.splits
        dest: publish_job_if_needed_pre_speech)

lemma check_silence_timeout_pre_speech:
  "check_silence_timeout cfg clk c g s = Inr (b, g', s')
   \<Longrightarrow> pre_speech_buffer s' = [] \<or> pre_speech_buffer s' = pre_speech_buffer s"
  by (auto simp: check_silence_timeout_def Let_def end_speech_session_def
        split: if_splits sum.splits option.splits
        dest: publish_job_if_needed_pre_speech publish_or_skip_pre_speech)

lemma on_speech_pre_speech: "pre_speech_buffer (on_speech clk s) = pre_speech_buffer s"
  by (simp add: on_speech_def start_speech_def split: SpeechState.splits)

lemma mark_silence_start_pre_speech:
  "pre_speech_buffer (mark_silence_start clk s) = pre_speech_buffer s"
  by (simp add: mark_silence_start_def)

lemma process_audio_chunk_pre_speech:
  assumes "process_audio_chunk cfg clk hs c chunk g s = Inr (b, g', s')"
  shows "pre_speech_buffer s' = []
         \<or> pre_speech_buffer s' = pre_speech_buffer (update_pre_speech_buffer cfg chunk s)"
  using assms
  by (auto simp: process_audio_chunk_def Let_def end_speech_session_def
        on_speech_pre_speech mark_silence_start_pre_speech
        split: if_splits sum.splits
        dest!: publish_job_if_needed_pre_speech check_silence_timeout_pre_speech)

lemma update_pre_speech_buffer_bound:
  assumes "0 \<le> PRE_SPEECH_BUFFER_SECONDS cfg * real_of_int (SAMPLE_RATE cfg) * 2"
  shows "real (length (pre_speech_buffer (update_pre_speech_buffer cfg chunk s)))
           \<le> PRE_SPEECH_BUFFER_SECONDS cfg * real_of_int (SAMPLE_RATE cfg) * 2"
proof -
  let ?X = "PRE_SPEECH_BUFFER_SECONDS cfg * real_of_int (SAMPLE_RATE cfg) * 2"
  let ?m = "py_int_of_float ?X"
  let ?ext = "pre_speech_buffer s @ chunk"
  have m: "?m = \<lfloor>?X\<rfloor>" using assms by (simp add: py_int_of_float_def)
  have m0: "0 \<le> ?m" using assms m by simp
  have mX: "real_of_int ?m \<le> ?X" using m by simp
  show ?thesis
  proof (cases "len ?ext > ?m")
    case True
    then have "pre_speech_buffer (update_pre_speech_buffer cfg chunk s)
                = drop (nat (len ?ext - ?m)) ?ext"
      by (simp add: update_pre_speech_buffer_def Let_def slice_from_def)
    moreover have "int (length (drop (nat (len ?ext - ?m)) ?ext)) = ?m"
      using True m0 by (simp add: len_def)
    ultimately have "real (length (pre_speech_buffer (update_pre_speech_buffer cfg chunk s)))
                       = real_of_int ?m"
      by (metis of_int_of_nat_eq)
    then show ?thesis using mX by simp
  next
    case False
    then have "pre_speech_buffer (update_pre_speech_buffer cfg chunk s) = ?ext"
      by (simp add: update_pre_speech_buffer_def Let_def)
    moreover have "int (length ?ext) \<le> ?m" using False by (simp add: len_def)
    then have "real (length ?ext) \<le> real_of_int ?m"
      by (metis of_int_le_iff of_int_of_nat_eq)
    ultimately show ?thesis using mX by simp
  qed
qed

lemma update_pre_speech_buffer_suffix:
  "suffix (pre_speech_buffer (update_pre_speech_buffer cfg chunk s)) (pre_speech_buffer s @ chunk)"
proof -
  have "pre_speech_buffer (update_pre_speech_buffer cfg chunk s) = pre_speech_buffer s @ chunk
        \<or> (\<exists>k. pre_speech_buffer (update_pre_speech_buffer cfg chunk s)
                   = drop k (pre_speech_buffer s @ chunk))"
    by (cases "len (pre_speech_buffer s @ chunk)
                 > py_int_of_float
                     (PRE_SPEECH_BUFFER_SECONDS cfg * real_of_int (SAMPLE_RATE cfg) * 2)")
       (auto simp add: update_pre_speech_buffer_def Let_def slice_from_def
             simp del: drop_append)
  then show ?thesis
  proof
    assume "pre_speech_buffer (update_pre_speech_buffer cfg chunk s) = pre_speech_buffer s @ chunk"
    then show ?thesis by (simp only: suffix_order.refl)
  next
    assume "\<exists>k. pre_speech_buffer (update_pre_speech_buffer cfg chunk s)
                   = drop k (pre_speech_buffer s @ chunk)"
    then obtain k where "pre_speech_buffer (update_pre_speech_buffer cfg chunk s)
                   = drop k (pre_speech_buffer s @ chunk)" ..
    then show ?thesis by (simp only: suffix_drop)
  qed
qed

lemma process_audio_chunk_bound:
  assumes "0 \<le> PRE_SPEECH_BUFFER_SECONDS cfg * real_of_int (SAMPLE_RATE cfg) * 2"
      and "process_audio_chunk cfg clk hs c chunk g s = Inr (b, g', s')"
  shows "real (length (pre_speech_buffer s'))
           \<le> PRE_SPEECH_BUFFER_SECONDS cfg * real_of_int (SAMPLE_RATE cfg) * 2
         \<and> suffix (pre_speech_buffer s') (pre_speech_buffer s @ chunk)"
  using process_audio_chunk_pre_speech[OF assms(2)] update_pre_speech_buffer_bound[OF assms(1)]
    update_pre_speech_buffer_suffix assms(1)
  by auto

lemma process_chunks_bound:
  assumes "0 \<le> PRE_SPEECH_BUFFER_SECONDS cfg * real_of_int (SAMPLE_RATE cfg) * 2"
  shows "evs \<noteq> [] \<Longrightarrow> process_chunks cfg c evs g s = Inr (g', s')
    \<Longrightarrow> real (length (pre_speech_buffer s'))
           \<le> PRE_SPEECH_BUFFER_SECONDS cfg * real_of_int (SAMPLE_RATE cfg) * 2"
proof (induction evs arbitrary: g s)
  case Nil
  then show ?case by simp
next
  case (Cons ev evs)
  obtain clk hs chunk where ev: "ev = (clk, hs, chunk)" by (cases ev) auto
  from Cons.prems(2) ev obtain b g1 s1 where
    step: "process_audio_chunk cfg clk hs c chunk g s = Inr (b, g1, s1)"
    and rest: "process_chunks cfg c evs g1 s1 = Inr (g', s')"
    by (auto split: sum.splits)
  show ?case
  proof (cases "evs = []")
    case True
    with rest have "s' = s1" by simp
    then show ?thesis using process_audio_chunk_bound[OF assms step] by simp
  next
    case False
    then show ?thesis using Cons.IH[OF False rest] by simp
  qed
qed

text \<open>
  Claim C9. After each processed chunk, in every state, the pre-speech buffer holds at
  most \<open>PRE_SPEECH_BUFFER_SECONDS \<times> SAMPLE_RATE \<times> 2\<close> bytes, and it is a suffix of the
  previous buffer followed by the chunk: the oldest bytes go first. This is about a call
  that returns, from any session and any gateway state, hence along every sequence of
  chunks; the cap is taken to be non-negative.
\<close>

theorem pre_speech_buffer_capped:
  assumes "0 \<le> PRE_SPEECH_BUFFER_SECONDS cfg * real_of_int (SAMPLE_RATE cfg) * 2"
  shows "(process_audio_chunk cfg clk hs c chunk g s = Inr (b, g', s') \<longrightarrow>
            real (length (pre_speech_buffer s'))
              \<le> PRE_SPEECH_BUFFER_SECONDS cfg * real_of_int (SAMPLE_RATE cfg) * 2
            \<and> suffix (pre_speech_buffer s') (pre_speech_buffer s @ chunk))
       \<and> (evs \<noteq> [] \<longrightarrow> process_chunks cfg c evs g0 s0 = Inr (g1, s1) \<longrightarrow>
            real (length (pre_speech_buffer s1))
              \<le> PRE_SPEECH_BUFFER_SECONDS cfg * real_of_int (SAMPLE_RATE cfg) * 2)"
  using process_audio_chunk_bound[OF assms] process_chunks_bound[OF assms]
  by blast

theorem pre_speech_buffer_capped_witness:
  "0 \<le> PRE_SPEECH_BUFFER_SECONDS default_config
          * real_of_int (SAMPLE_RATE default_config) * 2
   \<and> (\<exists>g' s'. process_audio_chunk default_config (at_time 0) False ''c1''
                  (replicate 70000 0) new_gateway (new_session default_config)
                = Inr (False, g', s')
              \<and> pre_speech_buffer s' = replicate 64000 0
              \<and> real (length (pre_speech_buffer s'))
                    \<le> PRE_SPEECH_BUFFER_SECONDS default_config
                        * real_of_int (SAMPLE_RATE default_config) * 2)"
  using pre_speech_buffer_capped
          [of default_config "at_time 0" False "''c1''" "replicate 70000 0" new_gateway
              "new_session default_config"]
  by (simp add: eval_chunk)

subsection \<open>Silence periods and forced final jobs\<close>

text \<open>
  Along every run of the engine from a fresh session the silence timer is set whenever
  the session is ACTIVE, so the block that records the silence marker never runs: the
  marker stays 0 and \<open>in_silence_period\<close> is never true.
\<close>

lemma publish_job_if_needed_timer:
  "publish_job_if_needed cfg c s fin force g = Inr (b, g', s') \<Longrightarrow> timer_runs s
   \<Longrightarrow> timer_runs s'"
  by (auto simp: publish_job_if_needed_def Let_def timer_runs_def split: if_splits)

lemma publish_or_skip_timer:
  "publish_or_skip cfg c g s = Inr (b, g', s') \<Longrightarrow> timer_runs s \<Longrightarrow> timer_runs s'"
  by (auto simp: publish_or_skip_def split: if_splits sum.splits
        dest: publish_job_if_needed_timer)

lemma end_speech_session_timer: "timer_runs (end_speech_session s)"
  by (simp add: end_speech_session_def timer_runs_def)

lemma check_silence_timeout_timer:
  "check_silence_timeout cfg clk c g s = Inr (b, g', s') \<Longrightarrow> timer_runs s \<Longrightarrow> timer_runs s'"
  by (auto simp: check_silence_timeout_def Let_def end_speech_session_timer
        split: if_splits sum.splits option.splits
        dest: publish_or_skip_timer)

lemma on_speech_timer: "timer_runs s \<Longrightarrow> timer_runs (on_speech clk s)"
  by (simp add: on_speech_def start_speech_def timer_runs_def split: SpeechState.splits)

lemma mark_silence_start_timer:
  "timer_runs s \<Longrightarrow> state s = ACTIVE \<Longrightarrow> mark_silence_start clk s = s"
  by (auto simp: mark_silence_start_def timer_runs_def)

lemma update_pre_speech_buffer_timer:
  "timer_runs (update_pre_speech_buffer cfg chunk s) = timer_runs s"
  by (simp add: update_pre_speech_buffer_def Let_def timer_runs_def)

lemma append_chunk_timer:
  "timer_runs (s\<lparr> audio_buffer := a, accumulated_audio_bytes := n \<rparr>) = timer_runs s"
  by (simp add: timer_runs_def)

lemma process_audio_chunk_timer:
  assumes "process_audio_chunk cfg clk hs c chunk g s = Inr (b, g', s')" and "timer_runs s"
  shows "timer_runs s'"
proof -
  let ?s1 = "update_pre_speech_buffer cfg chunk s"
  let ?s2 = "if hs then on_speech clk ?s1 else ?s1"
  have t2: "timer_runs ?s2"
    using assms(2) by (simp add: on_speech_timer update_pre_speech_buffer_timer)
  have s3: "(if state ?s2 = ACTIVE \<and> \<not> hs then mark_silence_start clk ?s2 else ?s2) = ?s2"
    using t2 by (cases hs) (simp_all add: mark_silence_start_timer)
  show ?thesis
    using assms(1) t2
    unfolding process_audio_chunk_def Let_def s3
    by (auto split: if_splits sum.splits
          simp: end_speech_session_timer append_chunk_timer
          dest!: publish_job_if_needed_timer check_silence_timeout_timer)
qed

lemma process_chunks_timer:
  "process_chunks cfg c evs g s = Inr (g', s') \<Longrightarrow> timer_runs s \<Longrightarrow> timer_runs s'"
proof (induction evs arbitrary: g s)
  case Nil
  then show ?case by simp
next
  case (Cons ev evs)
  obtain clk hs chunk where ev: "ev = (clk, hs, chunk)" by (cases ev) auto
  from Cons.prems(1) ev obtain b g1 s1 where
    step: "process_audio_chunk cfg clk hs c chunk g s = Inr (b, g1, s1)"
    and rest: "process_chunks cfg c evs g1 s1 = Inr (g', s')"
    by (auto split: sum.splits)
  from process_audio_chunk_timer[OF step Cons.prems(2)] have "timer_runs s1" .
  with Cons.IH[OF rest] show ?case .
qed

lemma silence_period_never_opens:
  assumes "process_chunks cfg c evs g (new_session cfg) = Inr (g', s')"
  shows "silence_buffer_start_len s' = 0 \<and> \<not> in_silence_period s'"
proof -
  have "timer_runs (new_session cfg)" by (simp add: timer_runs_def new_session_def)
  from process_chunks_timer[OF assms this] show ?thesis
    by (simp add: timer_runs_def in_silence_period_def)
qed

text \<open>
  Claim C2. While the session is ACTIVE and a silence period is open, no non-final job
  should be published, and the first silent chunk should record
  \<open>silence_buffer_start_len\<close> at the buffer length before it and start the silence
  timer. In the source the marker is written only when \<open>silence_start_time\<close> is
  \<open>None\<close>, and every speech chunk sets \<open>silence_start_time\<close> to the clock. From a fresh
  session with the default settings: a 640-byte speech chunk at time 0 and a 640-byte
  silent chunk at time 1/4 leave the marker at 0 (the buffer held 1280 bytes before the
  silent chunk) and the timer at 0; a further silent chunk of 32000 bytes at time 1/2
  publishes a non-final job of 33920 bytes and marks the client in flight.
\<close>

theorem silent_chunk_leaves_marker_and_job_is_published:
  "(\<exists>g s. process_chunks default_config c
             [(at_time 0, True, replicate 640 0), (at_time (1/4), False, replicate 640 0)]
             new_gateway (new_session default_config) = Inr (g, s)
          \<and> state s = ACTIVE \<and> len (audio_buffer s) = 1920
          \<and> silence_buffer_start_len s = 0 \<and> silence_start_time s = Some 0
          \<and> \<not> in_silence_period s \<and> audio_jobs g = [])
   \<and> (\<exists>g s. process_chunks default_config c
             [(at_time 0, True, replicate 640 0), (at_time (1/4), False, replicate 640 0),
              (at_time (1/2), False, replicate 32000 0)]
             new_gateway (new_session default_config) = Inr (g, s)
          \<and> map job_is_final (audio_jobs g) = [False]
          \<and> map (\<lambda>j. len (job_audio j)) (audio_jobs g) = [33920]
          \<and> get_in_flight g c)"
  by (simp add: eval_chunk)

text \<open>
  Claim C6. Every forced final publish should clear the in-flight flag first. The
  silence-timeout path does; the max-buffer path does not. With the default settings and
  a job in flight, a 640-byte speech chunk on a full 320000-byte buffer forces a final
  job and resets the session while the flag stays set; a silent chunk one second after
  the last speech forces a final job with the flag cleared.
\<close>

theorem max_buffer_final_job_leaves_in_flight_set:
  "(\<exists>g' s'. process_audio_chunk default_config (at_time 5) True c (replicate 640 0)
               (new_gateway\<lparr> job_in_flight := [c \<mapsto> True] \<rparr>)
               ((active_session default_config 320000)
                  \<lparr> last_published_len := 288000, silence_start_time := Some 5 \<rparr>)
             = Inr (True, g', s')
           \<and> map job_is_final (audio_jobs g') = [True]
           \<and> job_in_flight g' c = Some True
           \<and> state s' = INACTIVE \<and> audio_buffer s' = [])
   \<and> (\<exists>g' s'. process_audio_chunk default_config (at_time 6) False c (replicate 640 0)
               (new_gateway\<lparr> job_in_flight := [c \<mapsto> True] \<rparr>)
               ((active_session default_config 64000)
                  \<lparr> last_published_len := 32000, silence_start_time := Some 5 \<rparr>)
             = Inr (True, g', s')
           \<and> map job_is_final (audio_jobs g') = [True]
           \<and> job_in_flight g' c = Some False
           \<and> state s' = INACTIVE \<and> audio_buffer s' = [])"
  by (simp add: eval_chunk)


section \<open>Properties of the session store\<close>

lemmas eval_runtime =
  decimal_runtime_def decimal_int_of_str_def decimal_str_of_int_def is_digit_def
  integral_float_of_str_def integral_str_of_float_def

subsection \<open>Saving and loading\<close>


















subsection \<open>Decoding a stored hash\<close>

lemma decode_legacy_buffer_cases:
  "decode_legacy_buffer rt data key = Inl ValueError
   \<or> (\<exists>b. decode_legacy_buffer rt data key = Inr b)"
  by (simp add: decode_legacy_buffer_def split: option.splits)

lemma from_dict_loadable:
  assumes "loadable rt data ab"
  shows "\<exists>st a b. from_dict rt cfg data ab =
           Inr \<lparr> state = st, audio_buffer = a, pre_speech_buffer = b,
                 silence_start_time = decode_float_field rt data ''silence_start_time'',
                 session_start_time = decode_float_field rt data ''session_start_time'',
                 accumulated_audio_bytes = decode_int_field rt data ''accumulated_audio_bytes'',
                 last_stt_send_time = decode_float_field rt data ''last_stt_send_time'',
                 last_published_len = decode_int_field rt data ''last_published_len'',
                 silence_buffer_start_len = decode_int_field rt data ''silence_buffer_start_len'',
                 source_lang = (case map_of data ''source_lang'' of
                                  None \<Rightarrow> DEFAULT_SOURCE_LANGUAGE cfg | Some v \<Rightarrow> v),
                 target_lang = (case map_of data ''target_lang'' of
                                  None \<Rightarrow> DEFAULT_TARGET_LANGUAGE cfg | Some v \<Rightarrow> v),
                 translation_enabled = (case map_of data ''translation_enabled'' of
                                          None \<Rightarrow> True | Some v \<Rightarrow> lower v = ''true'') \<rparr>"
proof -
  from assms obtain st where
    st: "(case map_of data ''state'' of None \<Rightarrow> Some INACTIVE | Some v \<Rightarrow> SpeechState_of_value v)
           = Some st"
    by (auto simp: loadable_def split: option.splits)
  from assms have keys: "list_all (\<lambda>key. key \<in> set field_names) (map fst data)"
    by (simp add: loadable_def)
  show ?thesis
  proof (cases "ab = []")
    case True
    with assms decode_legacy_buffer_cases[of rt data "''audio_buffer''"]
      decode_legacy_buffer_cases[of rt data "''pre_speech_buffer''"]
    obtain a b where "decode_legacy_buffer rt data ''audio_buffer'' = Inr a"
      and "decode_legacy_buffer rt data ''pre_speech_buffer'' = Inr b"
      by (auto simp: loadable_def)
    with True st keys show ?thesis
      unfolding from_dict_def by simp
  next
    case False
    with st keys show ?thesis
      unfolding from_dict_def by simp
  qed
qed

lemma from_dict_not_loadable:
  assumes "\<not> loadable rt data ab"
  shows "\<exists>e. from_dict rt cfg data ab = Inl e"
proof -
  consider (buf) "ab = []" "decode_legacy_buffer rt data ''audio_buffer'' = Inl ValueError"
    | (pre) "ab = []" "decode_legacy_buffer rt data ''pre_speech_buffer'' = Inl ValueError"
    | (st) "(case map_of data ''state'' of None \<Rightarrow> Some INACTIVE
             | Some v \<Rightarrow> SpeechState_of_value v) = None"
    | (keys) "\<not> list_all (\<lambda>key. key \<in> set field_names) (map fst data)"
    using assms by (auto simp: loadable_def split: option.splits)
  then show ?thesis
  proof cases
    case buf
    then show ?thesis unfolding from_dict_def by simp
  next
    case pre
    then show ?thesis
      unfolding from_dict_def
      using decode_legacy_buffer_cases[of rt data "''audio_buffer''"] by auto
  next
    case st
    then show ?thesis
      unfolding from_dict_def by (simp split: sum.splits)
  next
    case keys
    then show ?thesis
      unfolding from_dict_def by (simp split: sum.splits option.splits)
  qed
qed

lemma from_dict_raises_iff:
  "(\<exists>e. from_dict rt cfg data ab = Inl e) \<longleftrightarrow> \<not> loadable rt data ab"
proof
  assume "\<exists>e. from_dict rt cfg data ab = Inl e"
  then show "\<not> loadable rt data ab"
    using from_dict_loadable[of rt data ab cfg] by auto
next
  assume "\<not> loadable rt data ab"
  then show "\<exists>e. from_dict rt cfg data ab = Inl e" by (rule from_dict_not_loadable)
qed

lemma from_dict_fields:
  assumes "from_dict rt cfg data ab = Inr s"
  shows "accumulated_audio_bytes s = decode_int_field rt data ''accumulated_audio_bytes''"
    and "last_published_len s = decode_int_field rt data ''last_published_len''"
    and "silence_buffer_start_len s = decode_int_field rt data ''silence_buffer_start_len''"
    and "silence_start_time s = decode_float_field rt data ''silence_start_time''"
    and "session_start_time s = decode_float_field rt data ''session_start_time''"
    and "last_stt_send_time s = decode_float_field rt data ''last_stt_send_time''"
proof -
  have "loadable rt data ab"
    using assms from_dict_not_loadable[of rt data ab cfg] by auto
  from from_dict_loadable[OF this, of cfg] assms
  show "accumulated_audio_bytes s = decode_int_field rt data ''accumulated_audio_bytes''"
    and "last_published_len s = decode_int_field rt data ''last_published_len''"
    and "silence_buffer_start_len s = decode_int_field rt data ''silence_buffer_start_len''"
    and "silence_start_time s = decode_float_field rt data ''silence_start_time''"
    and "session_start_time s = decode_float_field rt data ''session_start_time''"
    and "last_stt_send_time s = decode_float_field rt data ''last_stt_send_time''"
    by auto
qed


lemma decode_int_field_malformed:
  "map_of data key = Some v \<Longrightarrow> int_of_str rt v = None \<Longrightarrow> decode_int_field rt data key = 0"
  by (simp add: decode_int_field_def)

lemma decode_float_field_malformed:
  "map_of data key = Some v \<Longrightarrow> v = [] \<or> float_of_str rt v = None
   \<Longrightarrow> decode_float_field rt data key = None"
  by (auto simp: decode_float_field_def)

text \<open>
  Claim C10. \<open>from_dict\<close> never raises because of a malformed number or timestamp:
  whether it raises depends only on \<open>state\<close>, the key names and the legacy buffer
  fields, and in the session it returns a value of \<open>accumulated_audio_bytes\<close>,
  \<open>last_published_len\<close> or \<open>silence_buffer_start_len\<close> that does not parse as an
  integer is \<open>0\<close>, and a value of \<open>silence_start_time\<close>, \<open>session_start_time\<close> or
  \<open>last_stt_send_time\<close> that is empty or does not parse as a float is \<open>None\<close>.
\<close>

theorem from_dict_tolerates_malformed_numbers:
  "((\<exists>e. from_dict rt cfg data ab = Inl e) \<longleftrightarrow> \<not> loadable rt data ab)
   \<and> (\<forall>s. from_dict rt cfg data ab = Inr s \<longrightarrow>
         (\<forall>v. map_of data ''accumulated_audio_bytes'' = Some v \<and> int_of_str rt v = None
              \<longrightarrow> accumulated_audio_bytes s = 0)
       \<and> (\<forall>v. map_of data ''last_published_len'' = Some v \<and> int_of_str rt v = None
              \<longrightarrow> last_published_len s = 0)
       \<and> (\<forall>v. map_of data ''silence_buffer_start_len'' = Some v \<and> int_of_str rt v = None
              \<longrightarrow> silence_buffer_start_len s = 0)
       \<and> (\<forall>v. map_of data ''silence_start_time'' = Some v \<and> (v = [] \<or> float_of_str rt v = None)
              \<longrightarrow> silence_start_time s = None)
       \<and> (\<forall>v. map_of data ''session_start_time'' = Some v \<and> (v = [] \<or> float_of_str rt v = None)
              \<longrightarrow> session_start_time s = None)
       \<and> (\<forall>v. map_of data ''last_stt_send_time'' = Some v \<and> (v = [] \<or> float_of_str rt v = None)
              \<longrightarrow> last_stt_send_time s = None))"
  using from_dict_raises_iff[of rt cfg data ab]
  by (auto simp: from_dict_fields dest: decode_int_field_malformed decode_float_field_malformed)

theorem from_dict_tolerates_malformed_numbers_witness:
  "loadable decimal_runtime corrupted_hash []
   \<and> map_of corrupted_hash ''accumulated_audio_bytes'' = Some ''12x''
   \<and> int_of_str decimal_runtime ''12x'' = None
   \<and> map_of corrupted_hash ''last_published_len'' = Some []
   \<and> int_of_str decimal_runtime [] = None
   \<and> map_of corrupted_hash ''silence_buffer_start_len'' = Some ''-''
   \<and> int_of_str decimal_runtime ''-'' = None
   \<and> map_of corrupted_hash ''silence_start_time'' = Some ''soon''
   \<and> float_of_str decimal_runtime ''soon'' = None
   \<and> map_of corrupted_hash ''session_start_time'' = Some []
   \<and> map_of corrupted_hash ''last_stt_send_time'' = Some ''1.5.2''
   \<and> float_of_str decimal_runtime ''1.5.2'' = None
   \<and> from_dict decimal_runtime default_config corrupted_hash []
       = Inr \<lparr> state = ACTIVE, audio_buffer = [], pre_speech_buffer = [],
               silence_start_time = None, session_start_time = None,
               accumulated_audio_bytes = 0, last_stt_send_time = None,
               last_published_len = 0, silence_buffer_start_len = 0,
               source_lang = ''en'', target_lang = ''fr'', translation_enabled = True \<rparr>"
  using from_dict_tolerates_malformed_numbers
          [of decimal_runtime default_config corrupted_hash "[]"]
  by (simp add: loadable_def corrupted_hash_def from_dict_def decode_legacy_buffer_def
        SpeechState_of_value_def field_names_def decode_int_field_def decode_float_field_def
        lower_def lower_char_def char_of_def bit_iff_odd eval_runtime)


section \<open>Properties of the dual detector\<close>

lemmas eval_vad =
  detect_speech_activity_def check_voice_activity_def is_webrtc_speech_def
  is_silero_speech_def silero_thread_finish_def webrtc_verdict_def silero_verdict_def
  webrtc_frames_def frame_bytes_def new_vad_def eager_models_def thread_lags_def Let_def

lemma is_webrtc_speech_flag:
  assumes "webrtc_vad_model m \<noteq> None"
  shows "is_webrtc_speech_active (snd (is_webrtc_speech m chunk False v)) = webrtc_verdict m chunk"
    and "is_silero_speech_active (snd (is_webrtc_speech m chunk False v)) = is_silero_speech_active v"
    and "silero_working (snd (is_webrtc_speech m chunk False v)) = silero_working v"
    and "silero_thread (snd (is_webrtc_speech m chunk False v)) = silero_thread v"
  using assms by (auto simp: is_webrtc_speech_def webrtc_verdict_def split: option.splits)

text \<open>
  Claim C3, as stated: \<open>detect_speech_activity\<close> is true iff both detectors classify
  the same chunk as speech, never with a stale precise verdict, the caller waiting for
  both. The source starts the Silero run in a thread and reads the flags without joining
  it. On a fresh detector, with both models hearing speech in a 320-byte chunk and the
  thread finishing after the read, the answer is false.
\<close>

theorem detect_speech_activity_reads_stale_flag:
  "\<not> (fst (detect_speech_activity eager_models thread_lags (replicate 320 0) new_vad)
        \<longleftrightarrow> (webrtc_verdict eager_models (replicate 320 0)
             \<and> silero_verdict eager_models (replicate 320 0)))"
  by (simp add: eval_vad)

text \<open>
  Claim C3, amended. For a non-empty chunk of whole 16-bit samples, both models loaded
  and no Silero run active when the call starts, \<open>detect_speech_activity\<close> returns the
  coarse verdict on the current chunk AND-ed with the precise flag as read: the precise
  verdict on the current chunk if the run started for it finishes before the read,
  otherwise the flag an earlier chunk left (initially false). The caller does not wait.
\<close>

theorem detect_speech_activity_verdict:
  assumes "chunk \<noteq> []" and "webrtc_vad_model m \<noteq> None" and "silero_vad_model m \<noteq> None"
    and "even (length chunk)" and "silero_thread v = None" and "\<not> silero_working v"
  shows "fst (detect_speech_activity m sched chunk v)
         = (webrtc_verdict m chunk
            \<and> (if before_read sched then silero_verdict m chunk
                else is_silero_speech_active v))"
proof -
  let ?v1 = "snd (is_webrtc_speech m chunk False v)"
  have v1: "is_webrtc_speech_active ?v1 = webrtc_verdict m chunk"
    "is_silero_speech_active ?v1 = is_silero_speech_active v"
    "silero_working ?v1 = silero_working v" "silero_thread ?v1 = silero_thread v"
    using is_webrtc_speech_flag[OF assms(2)] by simp_all
  have fin: "silero_thread_finish m ?v1 = ?v1"
    using v1 assms(5) by (simp add: silero_thread_finish_def)
  show ?thesis
    using assms v1
    by (auto simp: detect_speech_activity_def check_voice_activity_def Let_def fin
          silero_thread_finish_def is_silero_speech_def silero_verdict_def
          split: option.splits)
qed

theorem detect_speech_activity_verdict_witness:
  "replicate 320 (0::byte) \<noteq> [] \<and> webrtc_vad_model eager_models \<noteq> None
   \<and> silero_vad_model eager_models \<noteq> None \<and> even (length (replicate 320 (0::byte)))
   \<and> silero_thread new_vad = None \<and> \<not> silero_working new_vad
   \<and> webrtc_verdict eager_models (replicate 320 0)
   \<and> silero_verdict eager_models (replicate 320 0)
   \<and> \<not> fst (detect_speech_activity eager_models thread_lags (replicate 320 0) new_vad)
   \<and> fst (detect_speech_activity eager_models \<lparr> before_test = False, before_read = True \<rparr>
            (replicate 320 0) new_vad)"
  using detect_speech_activity_verdict [of "replicate 320 0" eager_models new_vad thread_lags]
        detect_speech_activity_verdict [of "replicate 320 0" eager_models new_vad "\<lparr> before_test = False, before_read = True \<rparr>"]
  by (simp add: eval_vad)

section \<open>Properties of the result router\<close>

lemmas eval_router =
  forward_result_to_client_def forward_body_def should_forward_def should_unlock_job_def
  get_last_sent_def parse_segment_id_def is_translation_def parse_is_final_def truthy_def
  strip_def is_space_def get_or_def utterance_ends_def
  load_session_def hgetall_def redis_get_def loaded_buffer_def SESSION_PREFIX_def
  busy_server_def single_stage_server_def translation_result_def stt_result_def
  lower_def lower_char_def char_of_def bit_iff_odd

text \<open>
  Claim C4, as stated: a result whose segment id is not above
  \<open>latest_segment_id_sent\<close> is not forwarded, but still clears the in-flight flag when
  the unlock predicate applies. In the source the unlock sits inside
  \<open>if should_forward\<close>. With segment 7 already sent, translation enabled and a job in
  flight, a translation result for segment 6 leaves the whole gateway as it was, the
  flag still set.
\<close>

theorem stale_result_does_not_unlock:
  "should_unlock_job (translation_enabled (new_session default_config)) True
   \<and> parse_segment_id decimal_runtime (translation_result ''6'' ''segment_id'')
       \<le> get_last_sent (gw busy_server) ''c1''
   \<and> forward_result_to_client decimal_runtime default_config (translation_result ''6'')
         busy_server = Inr busy_server
   \<and> get_in_flight (gw busy_server) ''c1''"
  by (simp add: eval_router eval_runtime eval_publish)

text \<open>
  Claim C4, amended. A result whose segment id is not above \<open>latest_segment_id_sent\<close>
  is ignored altogether: nothing is forwarded and no bookkeeping runs, so the in-flight
  flag, the latest segment id, the job stream and the store are unchanged.
\<close>

theorem stale_result_changes_nothing:
  assumes "result_data ''client_id'' = Some (JStr c)"
    and "parse_segment_id rt (result_data ''segment_id'') \<le> get_last_sent (gw srv) c"
    and "forward_result_to_client rt cfg result_data srv = Inr srv'"
  shows "srv' = srv"
  using assms
  by (auto simp: forward_result_to_client_def should_forward_def Let_def
        split: if_splits sum.splits)

theorem stale_result_changes_nothing_witness:
  "translation_result ''6'' ''client_id'' = Some (JStr ''c1'')
   \<and> parse_segment_id decimal_runtime (translation_result ''6'' ''segment_id'')
       \<le> get_last_sent (gw busy_server) ''c1''
   \<and> forward_result_to_client decimal_runtime default_config (translation_result ''6'')
         busy_server = Inr busy_server"
  using stale_result_changes_nothing
          [of "translation_result ''6''" "''c1''" decimal_runtime busy_server default_config busy_server]
  by (simp add: eval_router eval_runtime eval_publish)

text \<open>
  Claim C5, as stated: \<open>utterance_end\<close> is sent iff \<open>is_final\<close> is true and the
  unlock predicate holds. The source sends it only from inside \<open>if should_forward\<close>.
  With segment 7 already sent and translation disabled, a final transcription result for
  segment 6 satisfies both conditions and no \<open>utterance_end\<close> is sent.
\<close>

theorem stale_final_result_sends_no_utterance_end:
  "parse_is_final (stt_result ''6'' ''is_final'')
   \<and> should_unlock_job (translation_enabled sample_session) False
   \<and> forward_result_to_client decimal_runtime default_config (stt_result ''6'')
         single_stage_server = Inr single_stage_server
   \<and> utterance_ends single_stage_server ''c1'' = 0"
  by (simp add: eval_router eval_runtime eval_publish sample_session_def to_dict_def
        from_dict_def decode_legacy_buffer_def SpeechState_of_value_def state_value_def
        field_names_def decode_int_field_def decode_float_field_def str_of_bool_def
        str_of_optional_float_def)

lemma forward_body_utterance_ends:
  assumes "forward_body rt cfg result_data c segment_id session tr srv = Inr srv'"
  shows "utterance_ends srv' c
         = utterance_ends srv c
           + (if c \<in> connected_clients srv \<and> parse_is_final (result_data ''is_final'')
                 \<and> should_unlock_job (translation_enabled session) tr
              then 1 else 0)"
  using assms
  by (auto simp: forward_body_def Let_def utterance_ends_def should_unlock_job_def
        split: if_splits sum.splits prod.splits)

text \<open>
  Claim C5, amended. For a result the router processes, \<open>utterance_end\<close> is sent iff
  \<open>is_final\<close> is true, the unlock predicate holds, the segment id is above
  \<open>latest_segment_id_sent\<close> and the client is in \<open>connected_clients\<close>; and then
  exactly one is sent.
\<close>

theorem utterance_end_iff_forwarded_final:
  assumes "result_data ''client_id'' = Some (JStr c)" and "c \<noteq> []"
    and "load_session rt cfg c (redis_db srv) = Inr session"
    and "is_translation (result_data ''translation'') = Inr tr"
    and "forward_result_to_client rt cfg result_data srv = Inr srv'"
  shows "utterance_ends srv' c
         = utterance_ends srv c
           + (if parse_is_final (result_data ''is_final'')
                 \<and> should_unlock_job (translation_enabled session) tr
                 \<and> parse_segment_id rt (result_data ''segment_id'') > get_last_sent (gw srv) c
                 \<and> c \<in> connected_clients srv
              then 1 else 0)"
proof (cases "should_forward (translation_enabled session) tr
                (parse_segment_id rt (result_data ''segment_id'')) (get_last_sent (gw srv) c)")
  case True
  then have seg: "parse_segment_id rt (result_data ''segment_id'') > get_last_sent (gw srv) c"
    by (simp add: should_forward_def split: if_splits)
  from True assms have
    "forward_body rt cfg result_data c (parse_segment_id rt (result_data ''segment_id''))
       session tr srv = Inr srv'"
    by (simp add: forward_result_to_client_def Let_def)
  from forward_body_utterance_ends[OF this] seg show ?thesis by auto
next
  case False
  with assms have same: "srv' = srv"
    by (simp add: forward_result_to_client_def Let_def)
  from False have
    "\<not> (should_unlock_job (translation_enabled session) tr
        \<and> parse_segment_id rt (result_data ''segment_id'') > get_last_sent (gw srv) c)"
    by (auto simp: should_forward_def should_unlock_job_def split: if_splits)
  with same show ?thesis by auto
qed

theorem utterance_end_iff_forwarded_final_witness:
  "translation_result ''8'' ''client_id'' = Some (JStr ''c1'') \<and> ''c1'' \<noteq> []
   \<and> load_session decimal_runtime default_config ''c1'' (redis_db busy_server)
       = Inr (new_session default_config)
   \<and> is_translation (translation_result ''8'' ''translation'') = Inr True
   \<and> forward_result_to_client decimal_runtime default_config (translation_result ''8'')
         busy_server
       = Inr (busy_server
               \<lparr> gw := new_gateway\<lparr> job_in_flight := [''c1'' \<mapsto> False],
                                     latest_segment_id_sent := [''c1'' \<mapsto> 8] \<rparr>,
                 sent := [(''c1'', Realtime (JStr ''hello'') (JStr ''hola'') (JStr ''8'')
                                     (JFloat 0)),
                          (''c1'', UtteranceEnd ''c1'')],
                 results_forwarded := 1 \<rparr>)
   \<and> utterance_ends busy_server ''c1'' = 0
   \<and> utterance_ends
         (busy_server
               \<lparr> gw := new_gateway\<lparr> job_in_flight := [''c1'' \<mapsto> False],
                                     latest_segment_id_sent := [''c1'' \<mapsto> 8] \<rparr>,
                 sent := [(''c1'', Realtime (JStr ''hello'') (JStr ''hola'') (JStr ''8'')
                                     (JFloat 0)),
                          (''c1'', UtteranceEnd ''c1'')],
                 results_forwarded := 1 \<rparr>) ''c1'' = 1"
  using utterance_end_iff_forwarded_final
          [of "translation_result ''8''" "''c1''" decimal_runtime default_config busy_server
              "new_session default_config" True
              "busy_server
               \<lparr> gw := new_gateway\<lparr> job_in_flight := [''c1'' \<mapsto> False],
                                     latest_segment_id_sent := [''c1'' \<mapsto> 8] \<rparr>,
                 sent := [(''c1'', Realtime (JStr ''hello'') (JStr ''hola'') (JStr ''8'')
                                     (JFloat 0)),
                          (''c1'', UtteranceEnd ''c1'')],
                 results_forwarded := 1 \<rparr>"]
  by (simp add: eval_router eval_runtime eval_publish)

end
